theory Spec2Isabelle
  imports Complex_Main
begin

section \<open>The booking and scheduling engine of the gym backend\<close>

text \<open>
  The development embeds the workout controller, the coach-availability controller and
  the feedback controller together with the two Mongoose schemas they write through
  (\<^verbatim>\<open>models/Workout.js\<close>, \<^verbatim>\<open>models/Feedback.js\<close>).

  Conventions of the embedding.
  \<^item> An ObjectId is a natural number; a request field that must hold an ObjectId is an
    \<open>idref\<close>: missing, malformed (a string that is no ObjectId) or an id. A query by
    a malformed id throws (a CastError of the driver).
  \<^item> A JavaScript \<^verbatim>\<open>Date\<close> is its number of milliseconds since the epoch, an \<open>int\<close>.
    \<^verbatim>\<open>new Date()\<close> is the parameter \<open>now\<close> of every operation; one request reads
    one clock value.
  \<^item> A MongoDB collection is the list of its documents in insertion order.
  \<^item> A thrown JavaScript exception is a value of type \<open>exn\<close>; the body of each
    \<^verbatim>\<open>try\<close> block returns \<open>exn + response\<close> together with the store as it is
    at the moment of the throw, and the \<^verbatim>\<open>catch\<close> block is the outer function.
  \<^item> An identifier that a module uses without binding it is an \<open>option\<close> that is
    \<open>None\<close>; evaluating it throws a ReferenceError. The statements after it are
    embedded all the same, as a function of what the identifier would yield: the
    functions \<open>cancel_rest\<close>, \<open>book_rest\<close>, \<open>list_rest\<close> and \<open>feedback_rest\<close>.
  \<^item> HTTP statuses carry the error taxonomy: 400 is InvalidInput or InvalidState,
    403 Forbidden, 404 NotFound, 409 Conflict, 500 Internal. The \<^verbatim>\<open>catch\<close> block
    of \<^verbatim>\<open>cancelWorkout\<close> answers every exception with the status 400 and the message
    \<^verbatim>\<open>Error cancelling workout\<close>, which the documentation of the route lists under
    500 as the internal server error.
\<close>

subsection \<open>Documents, responses, exceptions\<close>

type_synonym oid = nat
type_synonym instant = int

record workout =
  wid :: oid
  name :: "string option"
  activity :: "string option"
  description :: "string option"
  dateTime :: instant
  duration :: int
  coachId :: oid
  clientId :: "oid option"
  state :: string
  feedbackId :: "oid option"

record feedback =
  fid :: oid
  fb_workoutId :: "oid option"
  fb_clientId :: "oid option"
  fb_coachId :: "oid option"
  comment :: "string option"
  rating :: "real option"
  authorRole :: "string option"

record user =
  uid :: oid
  role :: string
  firstName :: string
  lastName :: string
  preferableActivity :: "string option"
  availableTimeSlots :: "string list"

record principal =
  user_id :: oid
  user_role :: string

record store =
  users :: "user list"
  workouts :: "workout list"
  feedbacks :: "feedback list"
  next_oid :: oid

datatype payload =
    Empty
  | Message string
  | Error string
  | Booked workout
  | Cancelled string oid
  | Content "workout list"
  | Slots "string list"

datatype response = Response nat payload | NoResponse

datatype idref = Missing | Malformed | Oid oid

datatype exn =
    ValidationError
  | MongoServerError nat
  | CastError
  | ReferenceError
  | TypeError
  | RangeError
  | SyntaxError

fun code :: "exn \<Rightarrow> nat option" where
  "code (MongoServerError c) = Some c"
| "code _ = None"

subsection \<open>The Workout schema and \<^verbatim>\<open>save\<close>\<close>

text \<open>The two \<^verbatim>\<open>enum\<close> arrays of the schema, string for string.\<close>

definition activity_enum :: "string list" where
  "activity_enum =
     [''Yoga'', ''Climbing'', ''Strength training'', ''Cross-fit'', ''Cardio Training'',
      ''Rehabilitation'']"

definition state_enum :: "string list" where
  "state_enum =
     [''AVAILABLE'', ''IN_PROGRESS'', ''SCHEDULED'',
      ''WAITING FOR FEEDBACK FROM CLIENT, WAITING FOR FEEDBACK FROM COACH'',
      ''FINISHED'', ''CANCELED'']"

text \<open>A required \<^verbatim>\<open>String\<close> path rejects an absent value and the empty string.\<close>

definition required_string :: "string option \<Rightarrow> bool" where
  "required_string v = (case v of None \<Rightarrow> False | Some s \<Rightarrow> s \<noteq> [])"

definition enum_string :: "string list \<Rightarrow> string option \<Rightarrow> bool" where
  "enum_string vs v = (case v of None \<Rightarrow> True | Some s \<Rightarrow> s \<in> set vs)"

text \<open>
  Schema validation as \<^verbatim>\<open>save\<close> runs it: \<^verbatim>\<open>name\<close> and \<^verbatim>\<open>activity\<close> required,
  \<^verbatim>\<open>activity\<close> and \<^verbatim>\<open>state\<close> in their enums, and the \<^verbatim>\<open>dateTime\<close> validator,
  which compares with the clock only when \<^verbatim>\<open>this.isNew\<close>. \<^verbatim>\<open>dateTime\<close> and
  \<^verbatim>\<open>coachId\<close> are present in every document the controllers build.
\<close>

definition validate :: "bool \<Rightarrow> instant \<Rightarrow> workout \<Rightarrow> bool" where
  "validate isNew now w =
     (required_string (name w) \<and>
      required_string (activity w) \<and> enum_string activity_enum (activity w) \<and>
      (if isNew then now < dateTime w else True) \<and>
      state w \<in> set state_enum)"

text \<open>
  \<^verbatim>\<open>WorkoutSchema.index({ coachId: 1, dateTime: 1 }, { unique: true })\<close>: the key of the
  index is the pair, and the index has no filter, so it covers every document.
\<close>

definition index_key :: "workout \<Rightarrow> oid \<times> instant" where
  "index_key w = (coachId w, dateTime w)"

fun replace_doc :: "workout \<Rightarrow> workout list \<Rightarrow> workout list" where
  "replace_doc w [] = []"
| "replace_doc w (d # ds) = (if wid d = wid w then w # ds else d # replace_doc w ds)"

text \<open>
  \<^verbatim>\<open>doc.save()\<close>: validation first (a failure throws a ValidationError and writes
  nothing); then an insert for a new document and an update by \<^verbatim>\<open>_id\<close> for a loaded
  one. The server rejects a write that would give two documents the same index key with
  error code 11000.
\<close>

definition save :: "store \<Rightarrow> instant \<Rightarrow> bool \<Rightarrow> workout \<Rightarrow> exn + store" where
  "save s now isNew w =
     (if \<not> validate isNew now w then Inl ValidationError
      else if isNew then
        (if \<exists>d \<in> set (workouts s). index_key d = index_key w
         then Inl (MongoServerError 11000)
         else Inr (s\<lparr>workouts := workouts s @ [w], next_oid := Suc (next_oid s)\<rparr>))
      else
        (if \<exists>d \<in> set (workouts s). wid d \<noteq> wid w \<and> index_key d = index_key w
         then Inl (MongoServerError 11000)
         else Inr (s\<lparr>workouts := replace_doc w (workouts s)\<rparr>)))"

text \<open>
  \<^verbatim>\<open>new Workout({...})\<close>: a fresh \<^verbatim>\<open>_id\<close>, the schema defaults \<^verbatim>\<open>duration: 60\<close>
  and no \<^verbatim>\<open>feedbackId\<close>.
\<close>

definition new_Workout ::
  "store \<Rightarrow> string option \<Rightarrow> string option \<Rightarrow> string option \<Rightarrow> instant \<Rightarrow> oid \<Rightarrow>
   oid option \<Rightarrow> string \<Rightarrow> workout" where
  "new_Workout s n a d t c cl st =
     \<lparr>wid = next_oid s, name = n, activity = a, description = d, dateTime = t,
      duration = 60, coachId = c, clientId = cl, state = st, feedbackId = None\<rparr>"

fun findById :: "workout list \<Rightarrow> oid \<Rightarrow> workout option" where
  "findById [] i = None"
| "findById (d # ds) i = (if wid d = i then Some d else findById ds i)"

subsection \<open>Cancellation: \<^verbatim>\<open>cancelWorkout\<close>\<close>

text \<open>
  \<^verbatim>\<open>workoutController.js\<close> binds \<^verbatim>\<open>Workout\<close> and \<^verbatim>\<open>User\<close> and nothing else. Its
  three functions that need the caller begin their \<^verbatim>\<open>try\<close> block with
  \<^verbatim>\<open>const authResult = await verifyToken(req)\<close>, and \<^verbatim>\<open>verifyToken\<close> has no
  binding: not in the module, not as a global. A binding would map the request to
  \<^verbatim>\<open>authResult\<close>, here \<open>Inl r\<close> when \<^verbatim>\<open>isAuthorized\<close> is false and \<open>r\<close> is
  \<^verbatim>\<open>authResult.response\<close>, and \<open>Inr u\<close> when the caller is the principal \<open>u\<close>.
\<close>

definition verifyToken :: "('req \<Rightarrow> response + principal) option" where
  "verifyToken = None"

text \<open>The request names its caller in its token, which nothing reads.\<close>

record cancel_request =
  c_httpMethod :: string
  c_caller :: principal
  c_workoutId :: idref

text \<open>
  The statements of the \<^verbatim>\<open>try\<close> block after the first. \<^verbatim>\<open>hoursDiff\<close> is the
  quotient of a whole number of milliseconds by 3600000; it is below 12 exactly when the
  exact quotient is, the nearest double below 12 being much closer to 12 than 1/3600000.
\<close>

definition cancel_rest ::
  "store \<Rightarrow> instant \<Rightarrow> response + principal \<Rightarrow> cancel_request \<Rightarrow>
   (exn + response) \<times> store" where
  "cancel_rest s now authResult req =
     (case authResult of
        Inl r \<Rightarrow> (Inr r, s)
      | Inr usr \<Rightarrow>
        (case c_workoutId req of
           Missing \<Rightarrow> (Inr (Response 400 (Message ''Workout ID is required'')), s)
         | Malformed \<Rightarrow> (Inl CastError, s)
         | Oid workoutId \<Rightarrow>
           (case findById (workouts s) workoutId of
              None \<Rightarrow> (Inr (Response 404 (Message ''Workout not found'')), s)
            | Some workout \<Rightarrow>
               (let isCoach = (coachId workout = user_id usr);
                    isClient = (clientId workout = Some (user_id usr));
                    hoursDiff = real_of_int (dateTime workout - now) / (1000 * 60 * 60)
                in
                if \<not> isCoach \<and> \<not> isClient then
                  (Inr (Response 403 (Message ''Not authorized to cancel this workout'')), s)
                else if isClient \<and> state workout \<noteq> ''SCHEDULED'' then
                  (Inr (Response 400 (Message ''Only scheduled workouts can be cancelled'')), s)
                else if hoursDiff < 12 then
                  (Inr (Response 400
                     (Message ''Workout can only be cancelled 12 hours in advance'')), s)
                else if isClient then
                  (case save s now False (workout\<lparr>state := ''CANCELED''\<rparr>) of
                     Inl e \<Rightarrow> (Inl e, s)
                   | Inr s1 \<Rightarrow>
                     (case save s1 now True
                             (new_Workout s1 (name workout) (activity workout)
                                (description workout) (dateTime workout) (coachId workout)
                                None ''AVAILABLE'') of
                        Inl e \<Rightarrow> (Inl e, s1)
                      | Inr s2 \<Rightarrow>
                          (Inr (Response 200
                             (Cancelled ''Workout cancelled and new slot made available''
                                (wid workout))), s2)))
                else if isCoach then
                  (Inr (Response 200
                     (Cancelled ''Workout cancelled and removed from availability''
                        workoutId)),
                   s\<lparr>workouts := filter (\<lambda>d. wid d \<noteq> wid workout) (workouts s)\<rparr>)
                else (Inr NoResponse, s)))))"

text \<open>The \<^verbatim>\<open>try\<close> block: its first statement throws.\<close>

definition cancel_body ::
  "store \<Rightarrow> instant \<Rightarrow> cancel_request \<Rightarrow> (exn + response) \<times> store" where
  "cancel_body s now req =
     (case verifyToken of
        None \<Rightarrow> (Inl ReferenceError, s)
      | Some f \<Rightarrow> cancel_rest s now (f req) req)"

definition cancelWorkout ::
  "store \<Rightarrow> instant \<Rightarrow> cancel_request \<Rightarrow> response \<times> store" where
  "cancelWorkout s now req =
     (if c_httpMethod req = ''OPTIONS'' then (Response 200 Empty, s)
      else
        (case cancel_body s now req of
           (Inl e, s') \<Rightarrow> (Response 400 (Message ''Error cancelling workout''), s')
         | (Inr r, s') \<Rightarrow> (r, s')))"

subsection \<open>Strings, numbers and dates of the JavaScript runtime\<close>

text \<open>
  \<^verbatim>\<open>s.split(c)\<close> for a one-character separator, \<^verbatim>\<open>s.startsWith(p)\<close>,
  \<^verbatim>\<open>s.padStart(2, '0')\<close> and \<^verbatim>\<open>s.trim()\<close> (on the ASCII white space).
\<close>

fun split :: "char \<Rightarrow> string \<Rightarrow> string list" where
  "split c [] = [[]]"
| "split c (x # xs) =
     (if x = c then [] # split c xs
      else (case split c xs of [] \<Rightarrow> [[x]] | p # ps \<Rightarrow> (x # p) # ps))"

fun startsWith :: "string \<Rightarrow> string \<Rightarrow> bool" where
  "startsWith s [] = True"
| "startsWith [] (c # cs) = False"
| "startsWith (x # xs) (c # cs) = (x = c \<and> startsWith xs cs)"

definition padStart2 :: "string \<Rightarrow> string" where
  "padStart2 s = replicate (2 - length s) CHR ''0'' @ s"

definition is_space :: "char \<Rightarrow> bool" where
  "is_space c = (c \<in> set [CHR '' '', CHR 0x09, CHR 0x0A, CHR 0x0B, CHR 0x0C, CHR 0x0D])"

definition trim :: "string \<Rightarrow> string" where
  "trim s = rev (dropWhile is_space (rev (dropWhile is_space s)))"

text \<open>The regular expressions \<^verbatim>\<open>/^\d{4}$/\<close> and \<^verbatim>\<open>/^\d{2}$/\<close> test for digits.\<close>

definition digit_of :: "char \<Rightarrow> nat option" where
  "digit_of =
     map_of [(CHR ''0'', 0), (CHR ''1'', 1), (CHR ''2'', 2), (CHR ''3'', 3), (CHR ''4'', 4),
             (CHR ''5'', 5), (CHR ''6'', 6), (CHR ''7'', 7), (CHR ''8'', 8), (CHR ''9'', 9)]"

definition digits :: "nat \<Rightarrow> string \<Rightarrow> bool" where
  "digits n s = (length s = n \<and> list_all (\<lambda>c. digit_of c \<noteq> None) s)"

text \<open>
  \<^verbatim>\<open>Number(s)\<close> on a string of decimal digits with white space around it, and on
  the empty string, which is 0. Any other string is read as \<^verbatim>\<open>NaN\<close>, which is
  \<open>None\<close>: signs, fractions, exponents and the other numeric literals, which
  \<^verbatim>\<open>Number\<close> also reads, are outside the time slots \<^verbatim>\<open>HH:MM\<close> of the interface.
  The value is the exact natural number; \<^verbatim>\<open>Number\<close> rounds it to a double from
  2^53 on, beyond any number of two or four digits.
\<close>

definition Number :: "string \<Rightarrow> nat option" where
  "Number s =
     (if list_all (\<lambda>c. digit_of c \<noteq> None) (trim s)
      then Some (foldl (\<lambda>n c. 10 * n + the (digit_of c)) 0 (trim s))
      else None)"

fun toString :: "nat \<Rightarrow> string" where
  "toString n =
     (if n < 10 then [''0123456789'' ! n]
      else toString (n div 10) @ [''0123456789'' ! (n mod 10)])"

definition num_toString :: "nat option \<Rightarrow> string" where
  "num_toString v = (case v of None \<Rightarrow> ''NaN'' | Some n \<Rightarrow> toString n)"

text \<open>
  Days from the epoch to a civil date of the proleptic Gregorian calendar, as
  \<^verbatim>\<open>MakeDay\<close> computes them for a month from 1 to 12; a day beyond the month's end
  runs on into the next month.
\<close>

definition days_from_civil :: "int \<Rightarrow> int \<Rightarrow> int \<Rightarrow> int" where
  "days_from_civil y m d =
     (let y' = (if m \<le> 2 then y - 1 else y);
          era = y' div 400;
          yoe = y' - era * 400;
          mp = (m + 9) mod 12;
          doy = (153 * mp + 2) div 5 + d - 1;
          doe = yoe * 365 + yoe div 4 - yoe div 100 + doy
      in era * 146097 + doe - 719468)"

definition leap_year :: "int \<Rightarrow> bool" where
  "leap_year y = (y mod 4 = 0 \<and> (y mod 100 \<noteq> 0 \<or> y mod 400 = 0))"

definition days_in_month :: "int \<Rightarrow> int \<Rightarrow> int" where
  "days_in_month y m =
     (if m = 2 then (if leap_year y then 29 else 28)
      else if m \<in> set [4, 6, 9, 11] then 30 else 31)"

text \<open>
  \<^verbatim>\<open>new Date(year, month - 1, day)\<close> read back through \<^verbatim>\<open>getFullYear\<close>,
  \<^verbatim>\<open>getMonth() + 1\<close> and \<^verbatim>\<open>getDate\<close>, for a month from 1 to 12 and a day from 1
  to 31: a year from 0 to 99 is taken as 1900 + year, and a day beyond the month's end
  falls into the next month.
\<close>

definition Date_local :: "int \<Rightarrow> int \<Rightarrow> int \<Rightarrow> int \<times> int \<times> int" where
  "Date_local y m d =
     (let y1 = (if 0 \<le> y \<and> y \<le> 99 then 1900 + y else y) in
      if d \<le> days_in_month y1 m then (y1, m, d)
      else if m = 12 then (y1 + 1, 1, d - days_in_month y1 m)
      else (y1, m + 1, d - days_in_month y1 m))"

text \<open>
  \<^verbatim>\<open>Date.UTC(year, month - 1, day, hours, minutes)\<close>; \<open>None\<close> is the invalid date
  (an argument that is \<^verbatim>\<open>NaN\<close>, or a time value beyond the range of \<^verbatim>\<open>Date\<close>).
\<close>

definition Date_UTC :: "int \<Rightarrow> int \<Rightarrow> int \<Rightarrow> nat option \<Rightarrow> nat option \<Rightarrow> instant option" where
  "Date_UTC y m d hours minutes =
     (case (hours, minutes) of
        (Some h, Some mi) \<Rightarrow>
          (let y1 = (if 0 \<le> y \<and> y \<le> 99 then 1900 + y else y);
               t = (days_from_civil y1 m 1 + d - 1) * 86400000 + int h * 3600000
                   + int mi * 60000
           in if \<bar>t\<bar> \<le> 8640000000000000 then Some t else None)
      | _ \<Rightarrow> None)"

text \<open>
  \<^verbatim>\<open>toLocaleTimeString("en-US", {hour: "numeric", minute: "2-digit", hour12: true,
  timeZone: "UTC"})\<close>: the 12-hour clock reading of an instant, as \<^verbatim>\<open>10:30 AM\<close>.
  What stands between the minutes and the day period comes from the locale data of the
  runtime and is the parameter \<open>sp\<close>: a space in the older data, the narrow no-break
  space U+202F (three bytes in UTF-8) in the newer.
\<close>

definition formatTime :: "string \<Rightarrow> instant \<Rightarrow> string" where
  "formatTime sp t =
     (let h = nat ((t div 3600000) mod 24);
          mi = nat ((t div 60000) mod 60)
      in toString (if h mod 12 = 0 then 12 else h mod 12) @ '':'' @ padStart2 (toString mi)
         @ sp @ (if 12 \<le> h then ''PM'' else ''AM''))"

definition narrow_space :: string where
  "narrow_space = [CHR 0xE2, CHR 0x80, CHR 0xAF]"

definition istOffsetMs :: int where
  "istOffsetMs = 19800000"

subsection \<open>Booking: \<^verbatim>\<open>bookNewWorkout\<close>\<close>

record book_fields =
  b_date :: "string option"
  b_coachId :: idref
  b_timeSlot :: "string option"

record book_request =
  b_httpMethod :: string
  b_caller :: principal
  b_body :: "book_fields option"

text \<open>
  The body of the request is \<open>None\<close> when \<^verbatim>\<open>JSON.parse\<close> rejects it. A string is
  falsy when it is absent or empty.
\<close>

definition truthy :: "string option \<Rightarrow> bool" where
  "truthy v = (case v of None \<Rightarrow> False | Some s \<Rightarrow> s \<noteq> [])"

text \<open>The inner function \<^verbatim>\<open>convertTo12HourFormat\<close>.\<close>

definition convertTo12HourFormat :: "string \<Rightarrow> exn + string" where
  "convertTo12HourFormat time24 =
     (case map Number (split CHR '':'' time24) of
        hour # minute # _ \<Rightarrow>
          (let period = (case hour of Some h \<Rightarrow> (if 12 \<le> h then ''PM'' else ''AM'')
                         | None \<Rightarrow> ''AM'');
               hour12 = (case hour of
                           Some h \<Rightarrow> Some (if h mod 12 = 0 then 12 else h mod 12)
                         | None \<Rightarrow> None)
           in Inr (num_toString hour12 @ '':'' @ padStart2 (num_toString minute) @ '' ''
                   @ period))
      | _ \<Rightarrow> Inl TypeError)"

definition projection :: "workout \<Rightarrow> payload" where
  "projection w = Booked w"

text \<open>
  The last part of the \<^verbatim>\<open>try\<close> block: the two conflict queries, the reuse of an
  \<^verbatim>\<open>AVAILABLE\<close> document, the creation of a new one.
\<close>

definition book_reserve ::
  "store \<Rightarrow> instant \<Rightarrow> oid \<Rightarrow> user \<Rightarrow> oid \<Rightarrow> instant \<Rightarrow> (exn + response) \<times> store" where
  "book_reserve s now client coach coach_id workoutDateTime =
     (case find (\<lambda>w. clientId w = Some client \<and> dateTime w = workoutDateTime \<and>
                      state w \<in> set [''SCHEDULED'', ''IN_PROGRESS'']) (workouts s) of
        Some clientExistingWorkout \<Rightarrow>
          (Inr (Response 409 (Error ''You already have a workout scheduled at this time.'')), s)
      | None \<Rightarrow>
        (case find (\<lambda>w. coachId w = coach_id \<and> dateTime w = workoutDateTime \<and>
                         state w \<in> set [''SCHEDULED'', ''IN_PROGRESS'']) (workouts s) of
           Some conflictingWorkout \<Rightarrow>
             (Inr (Response 409
                (Error ''Coach already has a workout scheduled at this time slot.'')), s)
         | None \<Rightarrow>
           (case find (\<lambda>w. coachId w = coach_id \<and> dateTime w = workoutDateTime \<and>
                            state w = ''AVAILABLE'') (workouts s) of
              Some availableWorkout \<Rightarrow>
                (let claimed = availableWorkout\<lparr>clientId := Some client, state := ''SCHEDULED''\<rparr>
                 in case save s now False claimed of
                      Inl e \<Rightarrow> (Inl e, s)
                    | Inr s1 \<Rightarrow> (Inr (Response 200 (projection claimed)), s1))
            | None \<Rightarrow>
                (let act = (case preferableActivity coach of None \<Rightarrow> ''undefined''
                            | Some a \<Rightarrow> a);
                     newWorkout =
                       new_Workout s (Some (act @ '' class'')) (preferableActivity coach)
                         (Some (act @ '' class with coach '' @ firstName coach @ '' ''
                                @ lastName coach))
                         workoutDateTime coach_id (Some client) ''SCHEDULED''
                 in case save s now True newWorkout of
                      Inl e \<Rightarrow> (Inl e, s)
                    | Inr s1 \<Rightarrow> (Inr (Response 201 (projection newWorkout)), s1)))))"

text \<open>
  The middle part: the date is split and checked, the requested instant is built with
  \<^verbatim>\<open>Date.UTC\<close> from the civil fields, and compared with the clock moved by the
  fixed offset and the buffer of 30 minutes.
\<close>

definition book_dated ::
  "store \<Rightarrow> instant \<Rightarrow> oid \<Rightarrow> user \<Rightarrow> oid \<Rightarrow> string \<Rightarrow> string \<Rightarrow> (exn + response) \<times> store" where
  "book_dated s now client coach coach_id date timeSlot =
     (let startTime = (if CHR ''-'' \<in> set timeSlot then trim (hd (split CHR ''-'' timeSlot))
                       else timeSlot);
          parts = map Number (split CHR '':'' startTime);
          hours = hd parts;
          minutes = (case tl parts of [] \<Rightarrow> None | m # _ \<Rightarrow> m);
          currentISTTime = now + istOffsetMs;
          ymd = split CHR ''-'' date;
          requestedYear = hd ymd
      in
      if \<not> digits 4 requestedYear then
        (Inr (Response 400 (Error ''Year should be a 4-digit number.'')), s)
      else
        (case tl ymd of
           [] \<Rightarrow> (Inl TypeError, s)
         | requestedMonth # rest \<Rightarrow>
           (if \<not> digits 2 requestedMonth \<or> the (Number requestedMonth) < 1
               \<or> 12 < the (Number requestedMonth) then
              (Inr (Response 400
                 (Error ''Month should be a 2-digit number between 01 and 12.'')), s)
            else
              (case rest of
                 [] \<Rightarrow> (Inl TypeError, s)
               | requestedDay # _ \<Rightarrow>
                 (if \<not> digits 2 requestedDay \<or> the (Number requestedDay) < 1
                     \<or> 31 < the (Number requestedDay) then
                    (Inr (Response 400
                       (Error ''Day should be a 2-digit number between 01 and 31.'')), s)
                  else
                    (let year = int (the (Number requestedYear));
                         month = int (the (Number requestedMonth));
                         day = int (the (Number requestedDay))
                     in
                     if Date_local year month day \<noteq> (year, month, day) then
                       (Inr (Response 400
                          (Error ''Invalid date. Please provide a valid date.'')), s)
                     else
                       (let requestedISTDateTime = Date_UTC year month day hours minutes;
                            bufferTimeInMinutes = 30;
                            currentISTTimeWithBuffer =
                              currentISTTime + bufferTimeInMinutes * 60000
                        in
                        case requestedISTDateTime of
                          None \<Rightarrow> (Inl RangeError, s)
                        | Some requested \<Rightarrow>
                            if requested < currentISTTimeWithBuffer then
                              (Inr (Response 400
                                 (Error (''Workouts must be scheduled at least 30 minutes ''
                                    @ ''in advance from your local time.''))), s)
                            else book_reserve s now client coach coach_id requested)))))))"

text \<open>
  The first part after the call of \<^verbatim>\<open>verifyToken\<close>: the caller's role, the required
  fields, the coach and the coach's time slot that starts with the requested time.
\<close>

definition book_rest ::
  "store \<Rightarrow> instant \<Rightarrow> response + principal \<Rightarrow> book_request \<Rightarrow>
   (exn + response) \<times> store" where
  "book_rest s now authResult req =
     (case authResult of
        Inl r \<Rightarrow> (Inr r, s)
      | Inr usr \<Rightarrow>
        (case b_body req of
           None \<Rightarrow> (Inl SyntaxError, s)
         | Some body \<Rightarrow>
           (let client = user_id usr;
                userDoc = find (\<lambda>u. uid u = client) (users s)
            in
            if (case userDoc of None \<Rightarrow> True | Some u \<Rightarrow> role u \<noteq> ''CLIENT'') then
              (Inr (Response 403 (Message ''Only clients can book workouts'')), s)
            else if b_coachId body = Missing \<or> \<not> truthy (b_date body)
                    \<or> \<not> truthy (b_timeSlot body) then
              (Inr (Response 400 (Error ''coachId, date, and timeSlot are required.'')), s)
            else
              (case b_coachId body of
                 Oid coach_id \<Rightarrow>
                   (case find (\<lambda>u. uid u = coach_id \<and> role u = ''COACH'') (users s) of
                      None \<Rightarrow> (Inr (Response 404 (Error ''Coach not found.'')), s)
                    | Some coach \<Rightarrow>
                      (case convertTo12HourFormat (the (b_timeSlot body)) of
                         Inl e \<Rightarrow> (Inl e, s)
                       | Inr formattedTime \<Rightarrow>
                         (case find (\<lambda>slot. startsWith slot formattedTime)
                                 (availableTimeSlots coach) of
                            None \<Rightarrow>
                              (Inr (Response 404
                                 (Error ''Coach not available at the selected time slot.'')), s)
                          | Some matchingTimeSlot \<Rightarrow>
                              book_dated s now client coach coach_id (the (b_date body))
                                (the (b_timeSlot body)))))
               | _ \<Rightarrow> (Inl CastError, s)))))"

text \<open>The \<^verbatim>\<open>try\<close> block: its first statement throws.\<close>

definition book_body ::
  "store \<Rightarrow> instant \<Rightarrow> book_request \<Rightarrow> (exn + response) \<times> store" where
  "book_body s now req =
     (case verifyToken of
        None \<Rightarrow> (Inl ReferenceError, s)
      | Some f \<Rightarrow> book_rest s now (f req) req)"

text \<open>The \<^verbatim>\<open>catch\<close> block: error code 11000 becomes 409, anything else 500.\<close>

definition book_catch :: "exn \<Rightarrow> response" where
  "book_catch e =
     (if code e = Some 11000 then
        Response 409
          (Error (''This time slot is already booked. ''
             @ ''Please try a different time or date.''))
      else Response 500 (Error ''Internal server error.''))"

definition bookNewWorkout ::
  "store \<Rightarrow> instant \<Rightarrow> book_request \<Rightarrow> response \<times> store" where
  "bookNewWorkout s now req =
     (if b_httpMethod req = ''OPTIONS'' then (Response 200 Empty, s)
      else
        (case book_body s now req of
           (Inl e, s') \<Rightarrow> (book_catch e, s')
         | (Inr r, s') \<Rightarrow> (r, s')))"

subsection \<open>Listing: \<^verbatim>\<open>getUserWorkouts\<close>\<close>

record list_request =
  l_httpMethod :: string
  l_caller :: principal

text \<open>
  The loop over the documents found: a scheduled workout whose end is not after the
  moved clock is set to the client's feedback state and saved. A failing
  \<^verbatim>\<open>save\<close> leaves the loop with the exception. The documents come sorted by
  \<^verbatim>\<open>dateTime\<close>; documents of one instant keep their order in the collection.
\<close>

fun promote ::
  "store \<Rightarrow> instant \<Rightarrow> instant \<Rightarrow> workout list \<Rightarrow> (exn + workout list) \<times> store" where
  "promote s now currentISTTime [] = (Inr [], s)"
| "promote s now currentISTTime (workout # rest) =
     (let endTime = dateTime workout + duration workout * 60000 in
      if endTime \<le> currentISTTime \<and> state workout = ''SCHEDULED'' then
        (let promoted = workout\<lparr>state := ''WAITING FOR FEEDBACK FROM CLIENT''\<rparr> in
         case save s now False promoted of
           Inl e \<Rightarrow> (Inl e, s)
         | Inr s1 \<Rightarrow>
             (case promote s1 now currentISTTime rest of
                (Inl e, s2) \<Rightarrow> (Inl e, s2)
              | (Inr ws, s2) \<Rightarrow> (Inr (promoted # ws), s2)))
      else
        (case promote s now currentISTTime rest of
           (Inl e, s2) \<Rightarrow> (Inl e, s2)
         | (Inr ws, s2) \<Rightarrow> (Inr (workout # ws), s2)))"

definition list_rest ::
  "store \<Rightarrow> instant \<Rightarrow> response + principal \<Rightarrow> list_request \<Rightarrow>
   (exn + response) \<times> store" where
  "list_rest s now authResult req =
     (case authResult of
        Inl r \<Rightarrow> (Inr r, s)
      | Inr usr \<Rightarrow>
        (let userId = user_id usr;
             userRole = user_role usr;
             currentISTTime = now + istOffsetMs
         in
         if userRole \<noteq> ''CLIENT'' \<and> userRole \<noteq> ''COACH'' then
           (Inr (Response 400 (Message ''Invalid user role'')), s)
         else
           (let query = (if userRole = ''CLIENT'' then (\<lambda>w. clientId w = Some userId)
                         else (\<lambda>w. coachId w = userId \<and> state w \<noteq> ''AVAILABLE''));
                found = sort_key dateTime (filter query (workouts s))
            in
            case promote s now currentISTTime found of
              (Inl e, s') \<Rightarrow> (Inl e, s')
            | (Inr transformedWorkouts, s') \<Rightarrow>
                (Inr (Response 200 (Content transformedWorkouts)), s'))))"

text \<open>The \<^verbatim>\<open>try\<close> block: its first statement throws.\<close>

definition list_body ::
  "store \<Rightarrow> instant \<Rightarrow> list_request \<Rightarrow> (exn + response) \<times> store" where
  "list_body s now req =
     (case verifyToken of
        None \<Rightarrow> (Inl ReferenceError, s)
      | Some f \<Rightarrow> list_rest s now (f req) req)"

definition getUserWorkouts ::
  "store \<Rightarrow> instant \<Rightarrow> list_request \<Rightarrow> response \<times> store" where
  "getUserWorkouts s now req =
     (if l_httpMethod req = ''OPTIONS'' then (Response 200 Empty, s)
      else
        (case list_body s now req of
           (Inl e, s') \<Rightarrow> (Response 500 (Message ''Error fetching workouts''), s')
         | (Inr r, s') \<Rightarrow> (r, s')))"

subsection \<open>Feedback: \<^verbatim>\<open>giveFeedback\<close>\<close>

text \<open>
  The controller is reached through the \<^verbatim>\<open>auth\<close> middleware, which has set
  \<^verbatim>\<open>req.user\<close>. \<^verbatim>\<open>feedbackController.js\<close> binds \<^verbatim>\<open>Feedback\<close> and \<^verbatim>\<open>Workout\<close> and
  nothing else; the second statement of its \<^verbatim>\<open>try\<close> block evaluates
  \<^verbatim>\<open>mongoose.Types.ObjectId.isValid(workoutId)\<close>, and \<^verbatim>\<open>mongoose\<close> has no binding.
  A binding would give the test \<^verbatim>\<open>isValid\<close> of ids. The two messages of the state
  guard quote the state's name; the quotation marks are left out here.
\<close>

definition mongoose :: "(idref \<Rightarrow> bool) option" where
  "mongoose = None"

record feedback_request =
  f_user :: principal
  f_workoutId :: idref
  f_comment :: "string option"
  f_rating :: "real option"

text \<open>
  The Feedback schema: every path but \<^verbatim>\<open>createdAt\<close> is required, and
  \<^verbatim>\<open>authorRole\<close> is one of two strings. The collection has no index of its own.
\<close>

definition validate_feedback :: "feedback \<Rightarrow> bool" where
  "validate_feedback f =
     (fb_workoutId f \<noteq> None \<and> fb_clientId f \<noteq> None \<and> fb_coachId f \<noteq> None \<and>
      required_string (comment f) \<and> rating f \<noteq> None \<and>
      required_string (authorRole f) \<and> enum_string [''CLIENT'', ''COACH''] (authorRole f))"

definition save_feedback :: "store \<Rightarrow> feedback \<Rightarrow> exn + store" where
  "save_feedback s f =
     (if \<not> validate_feedback f then Inl ValidationError
      else Inr (s\<lparr>feedbacks := feedbacks s @ [f], next_oid := Suc (next_oid s)\<rparr>))"

text \<open>
  \<^verbatim>\<open>!comment || !rating\<close>: an absent or empty comment, an absent rating and the
  rating 0 are falsy. The rating is a number.
\<close>

definition feedback_rest ::
  "store \<Rightarrow> instant \<Rightarrow> (idref \<Rightarrow> bool) \<Rightarrow> feedback_request \<Rightarrow>
   (exn + response) \<times> store" where
  "feedback_rest s now isValid req =
     (if \<not> isValid (f_workoutId req) then
        (Inr (Response 400 (Message ''Invalid workout ID format'')), s)
      else case f_workoutId req of
        Oid workoutId \<Rightarrow>
          (let authorRole' = user_role (f_user req);
               authorId = user_id (f_user req)
           in
           if \<not> (truthy (f_comment req) \<and> f_rating req \<noteq> None \<and> f_rating req \<noteq> Some 0) then
             (Inr (Response 400 (Message ''Please provide all the required fields.'')), s)
           else if 5 < the (f_rating req) \<or> the (f_rating req) \<le> 0 then
             (Inr (Response 400 (Message ''Invalid Rating.'')), s)
           else
             (case findById (workouts s) workoutId of
                None \<Rightarrow> (Inr (Response 404 (Message ''Workout not found.'')), s)
              | Some workout \<Rightarrow>
                if authorRole' = ''CLIENT''
                   \<and> state workout \<noteq> ''WAITING FOR FEEDBACK FROM CLIENT'' then
                  (Inr (Response 400
                     (Message (''Feedback can only be submitted when the workout is in ''
                        @ ''WAITING FOR FEEDBACK FROM CLIENT state.''))), s)
                else if authorRole' = ''COACH''
                   \<and> state workout \<noteq> ''WAITING FOR FEEDBACK FROM COACH'' then
                  (Inr (Response 400
                     (Message (''Feedback can only be submitted when the workout is in ''
                        @ ''WAITING FOR FEEDBACK FROM COACH state.''))), s)
                else if authorRole' = ''CLIENT'' \<and> clientId workout \<noteq> Some authorId then
                  (Inr (Response 403
                     (Message ''You are not authorized to provide feedback for this workout.'')),
                   s)
                else if authorRole' = ''COACH'' \<and> coachId workout \<noteq> authorId then
                  (Inr (Response 403
                     (Message ''You are not authorized to provide feedback for this workout.'')),
                   s)
                else if \<exists>f \<in> set (feedbacks s).
                          fb_workoutId f = Some workoutId \<and> authorRole f = Some authorRole' then
                  (Inr (Response 400
                     (Message ''You have already provided feedback for this workout.'')), s)
                else
                  (let fb = \<lparr>fid = next_oid s, fb_workoutId = Some workoutId,
                             fb_clientId = clientId workout,
                             fb_coachId = Some (coachId workout),
                             comment = f_comment req, rating = f_rating req,
                             authorRole = Some authorRole'\<rparr>
                   in
                   case save_feedback s fb of
                     Inl e \<Rightarrow> (Inl e, s)
                   | Inr s1 \<Rightarrow>
                       if authorRole' = ''CLIENT'' then
                         (case save s1 now False
                                 (workout\<lparr>state := ''WAITING FOR FEEDBACK FROM COACH''\<rparr>) of
                            Inl e \<Rightarrow> (Inl e, s1)
                          | Inr s2 \<Rightarrow>
                              (Inr (Response 201
                                 (Message ''Feedback submitted successfully.'')), s2))
                       else if authorRole' = ''COACH'' then
                         (case save s1 now False (workout\<lparr>state := ''FINISHED''\<rparr>) of
                            Inl e \<Rightarrow> (Inl e, s1)
                          | Inr s2 \<Rightarrow>
                              (Inr (Response 201
                                 (Message ''Feedback submitted successfully.'')), s2))
                       else
                         (Inr (Response 201 (Message ''Feedback submitted successfully.'')),
                          s1))))
      | Missing \<Rightarrow>
          (Inr (Response 400 (Message ''Please provide all the required fields.'')), s)
      | Malformed \<Rightarrow>
          (if \<not> (truthy (f_comment req) \<and> f_rating req \<noteq> None \<and> f_rating req \<noteq> Some 0) then
             (Inr (Response 400 (Message ''Please provide all the required fields.'')), s)
           else if 5 < the (f_rating req) \<or> the (f_rating req) \<le> 0 then
             (Inr (Response 400 (Message ''Invalid Rating.'')), s)
           else (Inl CastError, s)))"

text \<open>The \<^verbatim>\<open>try\<close> block: its second statement throws.\<close>

definition feedback_body ::
  "store \<Rightarrow> instant \<Rightarrow> feedback_request \<Rightarrow> (exn + response) \<times> store" where
  "feedback_body s now req =
     (case mongoose of
        None \<Rightarrow> (Inl ReferenceError, s)
      | Some isValid \<Rightarrow> feedback_rest s now isValid req)"

definition giveFeedback ::
  "store \<Rightarrow> instant \<Rightarrow> feedback_request \<Rightarrow> response \<times> store" where
  "giveFeedback s now req =
     (case feedback_body s now req of
        (Inl e, s') \<Rightarrow> (Response 500 (Message ''Internal Server Error.''), s')
      | (Inr r, s') \<Rightarrow> (r, s'))"

subsection \<open>Availability: \<^verbatim>\<open>getAvailableSlots\<close>\<close>

record slots_request =
  s_coachId :: idref
  s_date :: string

text \<open>
  The instant of \<^verbatim>\<open>${date}T00:00:00.000Z\<close> for a date that has passed the pattern
  \<^verbatim>\<open>/^\d{4}-\d{2}-\d{2}$/\<close> and the range checks of month and day.
\<close>

definition midnight_UTC :: "int \<Rightarrow> int \<Rightarrow> int \<Rightarrow> instant" where
  "midnight_UTC y m d = (days_from_civil y m 1 + d - 1) * 86400000"

text \<open>The state filter of the query, string for string.\<close>

definition occupying_states :: "string list" where
  "occupying_states =
     [''SCHEDULED'', ''IN_PROGRESS'', ''WAITING FOR FEEDBACK FROM CIENT'',
      ''WAITING FOR FEEDBACK FROM COACH'']"

definition slot_label :: "string \<Rightarrow> workout \<Rightarrow> string" where
  "slot_label sp workout =
     (let startTime = dateTime workout;
          endTime = startTime + duration workout * 60000
      in formatTime sp startTime @ '' - '' @ formatTime sp endTime)"

definition slots_body :: "string \<Rightarrow> store \<Rightarrow> instant \<Rightarrow> slots_request \<Rightarrow> exn + response" where
  "slots_body sp s now req =
     (case s_coachId req of
        Oid coach_id \<Rightarrow>
          (let date = s_date req; ymd = split CHR ''-'' date in
           if date = [] then Inr (Response 400 (Message ''Coach ID and date are required''))
           else if \<not> (length ymd = 3 \<and> digits 4 (ymd ! 0) \<and> digits 2 (ymd ! 1)
                      \<and> digits 2 (ymd ! 2)) then
             Inr (Response 400
               (Message ''Invalid date format. Please use YYYY-MM-DD format.''))
           else
             (let coach = find (\<lambda>u. uid u = coach_id \<and> role u = ''COACH'') (users s);
                  year = int (the (Number (ymd ! 0)));
                  month = int (the (Number (ymd ! 1)));
                  day = int (the (Number (ymd ! 2)))
              in
              if month < 1 \<or> 12 < month then
                Inr (Response 400
                  (Error ''Month should be a 2-digit number between 01 and 12.''))
              else if day < 1 \<or> 31 < day then
                Inr (Response 400
                  (Error ''Day should be a 2-digit number between 01 and 31.''))
              else
                (let requestedDate = midnight_UTC year month day;
                     today = (now div 86400000) * 86400000
                 in
                 if requestedDate < today then
                   Inr (Response 400
                     (Error (''You cannot check available slots for past dates. ''
                        @ ''Please select today or a future date.'')))
                 else
                   (case coach of
                      None \<Rightarrow> Inr (Response 404 (Message ''Coach not found''))
                    | Some c \<Rightarrow>
                      (let startOfDay = requestedDate;
                           endOfDay = requestedDate + 86399999;
                           bookedWorkouts =
                             filter (\<lambda>w. coachId w = coach_id \<and> startOfDay \<le> dateTime w
                                          \<and> dateTime w \<le> endOfDay
                                          \<and> state w \<in> set occupying_states) (workouts s);
                           bookedSlots = set (map (slot_label sp) bookedWorkouts);
                           availableSlots =
                             filter (\<lambda>slot. slot \<notin> bookedSlots) (availableTimeSlots c)
                       in Inr (Response 200 (Slots availableSlots)))))))
      | _ \<Rightarrow> Inr (Response 400 (Message ''Invalid coach ID format'')))"

definition getAvailableSlots :: "string \<Rightarrow> store \<Rightarrow> instant \<Rightarrow> slots_request \<Rightarrow> response" where
  "getAvailableSlots sp s now req =
     (case slots_body sp s now req of
        Inl e \<Rightarrow> Response 500 (Message ''Error fetching available slots'')
      | Inr r \<Rightarrow> r)"

subsection \<open>Runs of the engine\<close>

text \<open>
  The operations that write, each with the clock value of its request, and the
  store after a sequence of them. The users belong to the profile store and do not
  change.
\<close>

datatype operation =
    Book instant book_request
  | Cancel instant cancel_request
  | ListWorkouts instant list_request
  | GiveFeedback instant feedback_request

fun step :: "store \<Rightarrow> operation \<Rightarrow> store" where
  "step s (Book now req) = snd (bookNewWorkout s now req)"
| "step s (Cancel now req) = snd (cancelWorkout s now req)"
| "step s (ListWorkouts now req) = snd (getUserWorkouts s now req)"
| "step s (GiveFeedback now req) = snd (giveFeedback s now req)"

definition run :: "store \<Rightarrow> operation list \<Rightarrow> store" where
  "run s ops = foldl step s ops"

definition initial :: "user list \<Rightarrow> store" where
  "initial us = \<lparr>users = us, workouts = [], feedbacks = [], next_oid = 0\<rparr>"

subsection \<open>A coach, a client and one booked workout\<close>

text \<open>
  The data of the concrete runs below. The workout starts on 2025-06-16 at 10:30 civil
  time, which the engine stores as the instant 1750069800000, and lasts 60 minutes.
\<close>

definition coach_asha :: user where
  "coach_asha =
     \<lparr>uid = 1, role = ''COACH'', firstName = ''Asha'', lastName = ''Rao'',
      preferableActivity = Some ''Yoga'',
      availableTimeSlots =
        [''8:00 PM - 9:00 PM'', ''10:30 AM - 11:30 AM'', ''3:00 PM - 4:00 PM'']\<rparr>"

definition client_bo :: user where
  "client_bo =
     \<lparr>uid = 2, role = ''CLIENT'', firstName = ''Bo'', lastName = ''Lee'',
      preferableActivity = None, availableTimeSlots = []\<rparr>"

definition client_cy :: user where
  "client_cy =
     \<lparr>uid = 3, role = ''CLIENT'', firstName = ''Cy'', lastName = ''Diaz'',
      preferableActivity = None, availableTimeSlots = []\<rparr>"

definition bo :: principal where
  "bo = \<lparr>user_id = 2, user_role = ''CLIENT''\<rparr>"

definition cy :: principal where
  "cy = \<lparr>user_id = 3, user_role = ''CLIENT''\<rparr>"

definition asha :: principal where
  "asha = \<lparr>user_id = 1, user_role = ''COACH''\<rparr>"

definition booked :: workout where
  "booked =
     \<lparr>wid = 0, name = Some ''Yoga class'', activity = Some ''Yoga'',
      description = Some ''Yoga class with coach Asha Rao'', dateTime = 1750069800000,
      duration = 60, coachId = 1, clientId = Some 2, state = ''SCHEDULED'',
      feedbackId = None\<rparr>"

definition store_with :: "workout list \<Rightarrow> store" where
  "store_with ws =
     \<lparr>users = [coach_asha, client_bo, client_cy], workouts = ws, feedbacks = [],
      next_oid = 1\<rparr>"

definition book_1030 :: "principal \<Rightarrow> book_request" where
  "book_1030 p =
     \<lparr>b_httpMethod = ''POST'', b_caller = p,
      b_body = Some \<lparr>b_date = Some ''2025-06-16'', b_coachId = Oid 1,
                      b_timeSlot = Some ''10:30''\<rparr>\<rparr>"

definition cancel_0 :: "principal \<Rightarrow> cancel_request" where
  "cancel_0 p = \<lparr>c_httpMethod = ''DELETE'', c_caller = p, c_workoutId = Oid 0\<rparr>"

definition list_of :: "principal \<Rightarrow> list_request" where
  "list_of p = \<lparr>l_httpMethod = ''GET'', l_caller = p\<rparr>"

definition feedback_0 :: "principal \<Rightarrow> feedback_request" where
  "feedback_0 p =
     \<lparr>f_user = p, f_workoutId = Oid 0, f_comment = Some ''Great session'',
      f_rating = Some 5\<rparr>"

definition feedback_of_bo :: feedback where
  "feedback_of_bo =
     \<lparr>fid = 1, fb_workoutId = Some 0, fb_clientId = Some 2, fb_coachId = Some 1,
      comment = Some ''Great session'', rating = Some 5, authorRole = Some ''CLIENT''\<rparr>"

definition waiting_for_client :: workout where
  "waiting_for_client = booked\<lparr>state := ''WAITING FOR FEEDBACK FROM CLIENT''\<rparr>"

definition lifecycle :: "operation list" where
  "lifecycle =
     [Book 1750000000000 (book_1030 bo),
      ListWorkouts 1750080000000 (list_of bo),
      GiveFeedback 1750083600000 (feedback_0 bo)]"

definition after_client_feedback :: store where
  "after_client_feedback =
     (store_with [waiting_for_client])\<lparr>feedbacks := [feedback_of_bo], next_oid := 2\<rparr>"


definition waiting_for_coach :: workout where
  "waiting_for_coach = booked\<lparr>state := ''WAITING FOR FEEDBACK FROM COACH''\<rparr>"

definition canceled_at_3pm :: workout where
  "canceled_at_3pm = booked\<lparr>wid := 1, dateTime := 1750086000000, state := ''CANCELED''\<rparr>"

definition slots_of_asha :: slots_request where
  "slots_of_asha = \<lparr>s_coachId = Oid 1, s_date = ''2025-06-16''\<rparr>"

definition finished_with_feedback :: store where
  "finished_with_feedback =
     (store_with [booked\<lparr>state := ''FINISHED''\<rparr>])\<lparr>feedbacks := [feedback_of_bo], next_oid := 2\<rparr>"


text \<open>The test of ids that the library gives.\<close>

definition is_oid :: "idref \<Rightarrow> bool" where
  "is_oid i = (case i of Oid n \<Rightarrow> True | _ \<Rightarrow> False)"

text \<open>The live states of the specification, which occupy a slot.\<close>

definition live_states :: "string list" where
  "live_states =
     [''SCHEDULED'', ''IN_PROGRESS'', ''WAITING FOR FEEDBACK FROM CLIENT'',
      ''WAITING FOR FEEDBACK FROM COACH'']"

subsection \<open>Invariants of the store\<close>

text \<open>Every stored workout has a state the schema lists.\<close>

definition enum_states :: "store \<Rightarrow> bool" where
  "enum_states s = list_all (\<lambda>w. state w \<in> set state_enum) (workouts s)"

text \<open>The pair a feedback artifact is identified by.\<close>

definition feedback_key :: "feedback \<Rightarrow> oid option \<times> string option" where
  "feedback_key f = (fb_workoutId f, authorRole f)"

text \<open>
  The ids are distinct and below the next one, and the index keys are distinct.
\<close>

definition unique_keys :: "store \<Rightarrow> bool" where
  "unique_keys s =
     (distinct (map wid (workouts s)) \<and> distinct (map index_key (workouts s)) \<and>
      list_all (\<lambda>d. wid d < next_oid s) (workouts s))"

section \<open>Properties\<close>

subsection \<open>What every operation preserves\<close>

text \<open>
  The controllers write through four primitives only: \<^verbatim>\<open>save\<close> of a loaded workout,
  \<^verbatim>\<open>save\<close> of a workout just built by \<^verbatim>\<open>new Workout\<close>, \<^verbatim>\<open>deleteOne\<close> of a
  workout, and \<^verbatim>\<open>save\<close> of a feedback that the duplicate guard has let through. A
  predicate on stores that the four preserve is preserved by every operation, and so by
  every run. The proofs go through the statements behind the unbound identifiers and do
  not use that \<^verbatim>\<open>verifyToken\<close> and \<^verbatim>\<open>mongoose\<close> are unbound.
\<close>

lemma cancel_rest_preserves:
  assumes old: "\<And>s now w s'. save s now False w = Inr s' \<Longrightarrow> P s \<Longrightarrow> P s'"
    and new: "\<And>s now w s'. save s now True w = Inr s' \<Longrightarrow> wid w = next_oid s \<Longrightarrow> P s \<Longrightarrow> P s'"
    and del: "\<And>s i. P s \<Longrightarrow> P (s\<lparr>workouts := filter (\<lambda>d. wid d \<noteq> i) (workouts s)\<rparr>)"
    and ran: "cancel_rest s now a req = (r, s')" and P: "P s"
  shows "P s'"
  using ran P
  by (auto simp: cancel_rest_def Let_def new_Workout_def
      split: sum.splits idref.splits option.splits if_splits dest: old new intro: del)

lemma cancel_body_preserves:
  assumes old: "\<And>s now w s'. save s now False w = Inr s' \<Longrightarrow> P s \<Longrightarrow> P s'"
    and new: "\<And>s now w s'. save s now True w = Inr s' \<Longrightarrow> wid w = next_oid s \<Longrightarrow> P s \<Longrightarrow> P s'"
    and del: "\<And>s i. P s \<Longrightarrow> P (s\<lparr>workouts := filter (\<lambda>d. wid d \<noteq> i) (workouts s)\<rparr>)"
    and ran: "cancel_body s now req = (r, s')" and P: "P s"
  shows "P s'"
  using ran P cancel_rest_preserves[of P s now _ req r s', OF old new del _ P]
  by (auto simp: cancel_body_def split: option.splits)

lemma cancelWorkout_preserves:
  assumes old: "\<And>s now w s'. save s now False w = Inr s' \<Longrightarrow> P s \<Longrightarrow> P s'"
    and new: "\<And>s now w s'. save s now True w = Inr s' \<Longrightarrow> wid w = next_oid s \<Longrightarrow> P s \<Longrightarrow> P s'"
    and del: "\<And>s i. P s \<Longrightarrow> P (s\<lparr>workouts := filter (\<lambda>d. wid d \<noteq> i) (workouts s)\<rparr>)"
    and P: "P s"
  shows "P (snd (cancelWorkout s now req))"
  using cancel_body_preserves[of P s now req, OF old new del _ P] P
  by (auto simp: cancelWorkout_def split: prod.splits sum.splits)

lemma book_reserve_preserves:
  assumes old: "\<And>s now w s'. save s now False w = Inr s' \<Longrightarrow> P s \<Longrightarrow> P s'"
    and new: "\<And>s now w s'. save s now True w = Inr s' \<Longrightarrow> wid w = next_oid s \<Longrightarrow> P s \<Longrightarrow> P s'"
    and ran: "book_reserve s now cl coach cid t = (r, s')" and P: "P s"
  shows "P s'"
  using ran P
  by (auto simp: book_reserve_def Let_def new_Workout_def split: option.splits sum.splits
      dest: old new)

lemma book_dated_preserves:
  assumes old: "\<And>s now w s'. save s now False w = Inr s' \<Longrightarrow> P s \<Longrightarrow> P s'"
    and new: "\<And>s now w s'. save s now True w = Inr s' \<Longrightarrow> wid w = next_oid s \<Longrightarrow> P s \<Longrightarrow> P s'"
    and ran: "book_dated s now cl coach cid date ts = (r, s')" and P: "P s"
  shows "P s'"
  using ran P book_reserve_preserves[of P s now cl coach cid _ r s', OF old new _ P]
  by (auto simp: book_dated_def Let_def split: list.splits option.splits if_splits)

lemma book_rest_preserves:
  assumes old: "\<And>s now w s'. save s now False w = Inr s' \<Longrightarrow> P s \<Longrightarrow> P s'"
    and new: "\<And>s now w s'. save s now True w = Inr s' \<Longrightarrow> wid w = next_oid s \<Longrightarrow> P s \<Longrightarrow> P s'"
    and ran: "book_rest s now a req = (r, s')" and P: "P s"
  shows "P s'"
  using ran P book_dated_preserves[of P s now _ _ _ _ _ r s', OF old new _ P]
  by (auto simp: book_rest_def Let_def split: sum.splits option.splits idref.splits if_splits)

lemma book_body_preserves:
  assumes old: "\<And>s now w s'. save s now False w = Inr s' \<Longrightarrow> P s \<Longrightarrow> P s'"
    and new: "\<And>s now w s'. save s now True w = Inr s' \<Longrightarrow> wid w = next_oid s \<Longrightarrow> P s \<Longrightarrow> P s'"
    and ran: "book_body s now req = (r, s')" and P: "P s"
  shows "P s'"
  using ran P book_rest_preserves[of P s now _ req r s', OF old new _ P]
  by (auto simp: book_body_def split: option.splits)

lemma bookNewWorkout_preserves:
  assumes old: "\<And>s now w s'. save s now False w = Inr s' \<Longrightarrow> P s \<Longrightarrow> P s'"
    and new: "\<And>s now w s'. save s now True w = Inr s' \<Longrightarrow> wid w = next_oid s \<Longrightarrow> P s \<Longrightarrow> P s'"
    and P: "P s"
  shows "P (snd (bookNewWorkout s now req))"
  using book_body_preserves[of P s now req, OF old new _ P] P
  by (auto simp: bookNewWorkout_def split: prod.splits sum.splits)

lemma promote_preserves:
  assumes old: "\<And>s now w s'. save s now False w = Inr s' \<Longrightarrow> P s \<Longrightarrow> P s'"
  shows "promote s now ist ws = (r, s') \<Longrightarrow> P s \<Longrightarrow> P s'"
proof (induction ws arbitrary: s r s')
  case Nil
  then show ?case by simp
next
  case (Cons w ws)
  then show ?case
    by (auto simp: Let_def split: sum.splits prod.splits if_splits dest: old)
qed

lemma list_rest_preserves:
  assumes old: "\<And>s now w s'. save s now False w = Inr s' \<Longrightarrow> P s \<Longrightarrow> P s'"
    and ran: "list_rest s now a req = (r, s')" and P: "P s"
  shows "P s'"
  using ran P promote_preserves[of P s now _ _ _ s', OF old _ P]
  by (auto simp: list_rest_def Let_def split: prod.splits sum.splits if_splits)

lemma getUserWorkouts_preserves:
  assumes old: "\<And>s now w s'. save s now False w = Inr s' \<Longrightarrow> P s \<Longrightarrow> P s'"
    and P: "P s"
  shows "P (snd (getUserWorkouts s now req))"
  using list_rest_preserves[of P s now _ req _ _, OF old _ P] P
  by (auto simp: getUserWorkouts_def list_body_def split: prod.splits sum.splits option.splits)

lemma feedback_rest_preserves:
  assumes old: "\<And>s now w s'. save s now False w = Inr s' \<Longrightarrow> P s \<Longrightarrow> P s'"
    and fb: "\<And>s f s'. save_feedback s f = Inr s' \<Longrightarrow>
               \<not> (\<exists>g \<in> set (feedbacks s). fb_workoutId g = fb_workoutId f
                                             \<and> authorRole g = authorRole f) \<Longrightarrow>
               P s \<Longrightarrow> P s'"
    and ran: "feedback_rest s now isValid req = (r, s')" and P: "P s"
  shows "P s'"
proof (cases "f_workoutId req")
  case (Oid i)
  show ?thesis
  proof (cases "findById (workouts s) i")
    case None
    with Oid ran P show ?thesis
      by (auto simp: feedback_rest_def Let_def split: if_splits)
  next
    case (Some w)
    let ?fb = "\<lparr>fid = next_oid s, fb_workoutId = Some i, fb_clientId = clientId w,
                fb_coachId = Some (coachId w), comment = f_comment req,
                rating = f_rating req, authorRole = Some (user_role (f_user req))\<rparr>"
    have stored: "save_feedback s ?fb = Inr s1 \<Longrightarrow>
          \<not> (\<exists>g \<in> set (feedbacks s). fb_workoutId g = Some i
                \<and> authorRole g = Some (user_role (f_user req))) \<Longrightarrow> P s1" for s1
      using fb[of s ?fb s1] P by simp
    from Oid Some ran P stored show ?thesis
      by (auto simp: feedback_rest_def Let_def split: if_splits sum.splits dest: old)
  qed
qed (use ran P in \<open>auto simp: feedback_rest_def split: if_splits\<close>)

lemma feedback_body_preserves:
  assumes old: "\<And>s now w s'. save s now False w = Inr s' \<Longrightarrow> P s \<Longrightarrow> P s'"
    and fb: "\<And>s f s'. save_feedback s f = Inr s' \<Longrightarrow>
               \<not> (\<exists>g \<in> set (feedbacks s). fb_workoutId g = fb_workoutId f
                                             \<and> authorRole g = authorRole f) \<Longrightarrow>
               P s \<Longrightarrow> P s'"
    and ran: "feedback_body s now req = (r, s')" and P: "P s"
  shows "P s'"
  using ran P feedback_rest_preserves[of P s now _ req r s', OF old fb _ P]
  by (auto simp: feedback_body_def split: option.splits)

lemma giveFeedback_preserves:
  assumes old: "\<And>s now w s'. save s now False w = Inr s' \<Longrightarrow> P s \<Longrightarrow> P s'"
    and fb: "\<And>s f s'. save_feedback s f = Inr s' \<Longrightarrow>
               \<not> (\<exists>g \<in> set (feedbacks s). fb_workoutId g = fb_workoutId f
                                             \<and> authorRole g = authorRole f) \<Longrightarrow>
               P s \<Longrightarrow> P s'"
    and P: "P s"
  shows "P (snd (giveFeedback s now req))"
  using feedback_body_preserves[of P s now req, OF old fb _ P] P
  by (auto simp: giveFeedback_def split: prod.splits sum.splits)

lemma step_preserves:
  assumes old: "\<And>s now w s'. save s now False w = Inr s' \<Longrightarrow> P s \<Longrightarrow> P s'"
    and new: "\<And>s now w s'. save s now True w = Inr s' \<Longrightarrow> wid w = next_oid s \<Longrightarrow> P s \<Longrightarrow> P s'"
    and del: "\<And>s i. P s \<Longrightarrow> P (s\<lparr>workouts := filter (\<lambda>d. wid d \<noteq> i) (workouts s)\<rparr>)"
    and fb: "\<And>s f s'. save_feedback s f = Inr s' \<Longrightarrow>
               \<not> (\<exists>g \<in> set (feedbacks s). fb_workoutId g = fb_workoutId f
                                             \<and> authorRole g = authorRole f) \<Longrightarrow>
               P s \<Longrightarrow> P s'"
    and P: "P s"
  shows "P (step s op)"
proof (cases op)
  case (Book now req)
  then show ?thesis using bookNewWorkout_preserves[of P, OF old new P] by simp
next
  case (Cancel now req)
  then show ?thesis using cancelWorkout_preserves[of P, OF old new del P] by simp
next
  case (ListWorkouts now req)
  then show ?thesis using getUserWorkouts_preserves[of P, OF old P] by simp
next
  case (GiveFeedback now req)
  then show ?thesis using giveFeedback_preserves[of P, OF old fb P] by simp
qed

lemma run_preserves:
  assumes old: "\<And>s now w s'. save s now False w = Inr s' \<Longrightarrow> P s \<Longrightarrow> P s'"
    and new: "\<And>s now w s'. save s now True w = Inr s' \<Longrightarrow> wid w = next_oid s \<Longrightarrow> P s \<Longrightarrow> P s'"
    and del: "\<And>s i. P s \<Longrightarrow> P (s\<lparr>workouts := filter (\<lambda>d. wid d \<noteq> i) (workouts s)\<rparr>)"
    and fb: "\<And>s f s'. save_feedback s f = Inr s' \<Longrightarrow>
               \<not> (\<exists>g \<in> set (feedbacks s). fb_workoutId g = fb_workoutId f
                                             \<and> authorRole g = authorRole f) \<Longrightarrow>
               P s \<Longrightarrow> P s'"
  shows "P s \<Longrightarrow> P (run s ops)"
  unfolding run_def
proof (induction ops arbitrary: s)
  case Nil
  then show ?case by simp
next
  case (Cons op ops)
  from step_preserves[of P, OF old new del fb Cons.prems] have "P (step s op)" .
  from Cons.IH[OF this] show ?case by simp
qed

subsection \<open>Three invariants\<close>

lemma set_replace_doc: "set (replace_doc w ws) \<subseteq> insert w (set ws)"
  by (induction ws) auto

lemma save_frame:
  assumes "save s now isNew w = Inr s'"
  shows "users s' = users s" and "feedbacks s' = feedbacks s"
    and "set (workouts s') \<subseteq> insert w (set (workouts s))" and "state w \<in> set state_enum"
  using assms set_replace_doc[of w "workouts s"]
  by (auto simp: save_def validate_def split: if_splits)

lemma save_enum_states:
  "save s now isNew w = Inr s' \<Longrightarrow> enum_states s \<Longrightarrow> enum_states s'"
  using save_frame(3,4)[of s now isNew w s']
  by (auto simp: enum_states_def list_all_iff)

lemma save_feedback_enum_states:
  "save_feedback s f = Inr s' \<Longrightarrow> enum_states s \<Longrightarrow> enum_states s'"
  by (auto simp: enum_states_def save_feedback_def split: if_splits)

lemma run_enum_states: "enum_states s \<Longrightarrow> enum_states (run s ops)"
  by (rule run_preserves[of enum_states])
     (auto simp: save_feedback_enum_states save_enum_states,
      auto simp: enum_states_def list_all_iff)

lemma waiting_not_in_enum:
  "''WAITING FOR FEEDBACK FROM CLIENT'' \<notin> set state_enum"
  "''WAITING FOR FEEDBACK FROM COACH'' \<notin> set state_enum"
  by (simp_all add: state_enum_def)

lemma save_feedback_keys:
  assumes "save_feedback s f = Inr s'"
    and "\<not> (\<exists>g \<in> set (feedbacks s).
              fb_workoutId g = fb_workoutId f \<and> authorRole g = authorRole f)"
    and "distinct (map feedback_key (feedbacks s))"
  shows "distinct (map feedback_key (feedbacks s'))"
proof -
  from assms(1) have fs: "feedbacks s' = feedbacks s @ [f]"
    by (auto simp: save_feedback_def split: if_splits)
  from assms(2) have "feedback_key f \<notin> set (map feedback_key (feedbacks s))"
    by (force simp: feedback_key_def)
  with assms(3) fs show ?thesis by simp
qed

lemma run_feedback_keys:
  "distinct (map feedback_key (feedbacks s)) \<Longrightarrow>
   distinct (map feedback_key (feedbacks (run s ops)))"
  by (rule run_preserves[of "\<lambda>s. distinct (map feedback_key (feedbacks s))"])
     (auto simp: save_frame(2) save_feedback_keys)

text \<open>
  The index at work: ids are fresh and distinct, and no two stored workouts, of any
  state, share coach and instant.
\<close>

lemma replace_doc_absent:
  "wid w \<notin> wid ` set ws \<Longrightarrow> replace_doc w ws = ws"
  by (induction ws) auto

lemma replace_doc_ids: "map wid (replace_doc w ws) = map wid ws"
  by (induction ws) auto

lemma replace_doc_keys:
  assumes "distinct (map wid ws)" and "distinct (map index_key ws)"
    and "\<not> (\<exists>d \<in> set ws. wid d \<noteq> wid w \<and> index_key d = index_key w)"
  shows "distinct (map index_key (replace_doc w ws))"
  using assms
proof (induction ws)
  case Nil
  then show ?case by simp
next
  case (Cons d ds)
  show ?case
  proof (cases "wid d = wid w")
    case True
    with Cons.prems(1) have "wid w \<notin> wid ` set ds"
      by auto
    then have "\<forall>x \<in> set ds. wid x \<noteq> wid w"
      by (metis imageI)
    with Cons.prems(3) have "index_key w \<notin> index_key ` set ds"
      by auto
    with True Cons.prems(2) show ?thesis
      by simp
  next
    case False
    with Cons.prems(3) have dw: "index_key d \<noteq> index_key w"
      by auto
    from Cons.prems have IH: "distinct (map index_key (replace_doc w ds))"
      by (intro Cons.IH) auto
    have "set (replace_doc w ds) \<subseteq> insert w (set ds)"
      by (rule set_replace_doc)
    with dw Cons.prems(2) have "index_key d \<notin> index_key ` set (replace_doc w ds)"
      by auto
    with False IH show ?thesis
      by simp
  qed
qed

lemma save_old_unique_keys:
  assumes "save s now False w = Inr s'" and "unique_keys s"
  shows "unique_keys s'"
proof -
  from assms(1) have ws: "workouts s' = replace_doc w (workouts s)"
    and nx: "next_oid s' = next_oid s"
    and free: "\<not> (\<exists>d \<in> set (workouts s). wid d \<noteq> wid w \<and> index_key d = index_key w)"
    by (auto simp: save_def split: if_splits)
  from assms(2) free have "distinct (map index_key (replace_doc w (workouts s)))"
    by (intro replace_doc_keys) (auto simp: unique_keys_def)
  moreover have "list_all (\<lambda>d. wid d < next_oid s) (replace_doc w (workouts s))"
    using assms(2) replace_doc_ids[of w "workouts s"]
    by (metis (mono_tags, lifting) list_all_iff unique_keys_def imageE image_eqI list.set_map)
  ultimately show ?thesis
    using assms(2) ws nx by (simp add: unique_keys_def replace_doc_ids)
qed

lemma save_new_unique_keys:
  assumes "save s now True w = Inr s'" and "wid w = next_oid s" and "unique_keys s"
  shows "unique_keys s'"
  using assms
  by (auto simp: save_def unique_keys_def list_all_iff split: if_splits)
     (force simp: less_Suc_eq)+

lemma run_unique_keys: "unique_keys s \<Longrightarrow> unique_keys (run s ops)"
proof (rule run_preserves[of unique_keys])
  show "unique_keys (s\<lparr>workouts := filter (\<lambda>d. wid d \<noteq> i) (workouts s)\<rparr>)"
    if "unique_keys s" for s i
    using that by (auto simp: unique_keys_def list_all_iff distinct_map_filter)
  show "unique_keys s'"
    if "save_feedback s f = Inr s'" and "unique_keys s" for s f s'
    using that
    by (auto simp: save_feedback_def unique_keys_def list_all_iff less_Suc_eq split: if_splits)
qed (auto intro: save_old_unique_keys save_new_unique_keys)

lemma reachable_unique_keys:
  "distinct (map index_key (workouts (run (initial us) ops)))"
proof -
  have "unique_keys (initial us)"
    by (simp add: unique_keys_def initial_def)
  then have "unique_keys (run (initial us) ops)"
    by (rule run_unique_keys)
  then show ?thesis
    by (simp add: unique_keys_def)
qed

subsection \<open>The invariants behind the unbound identifiers\<close>

text \<open>
  The statements that are never reached keep the three invariants too, whatever
  \<^verbatim>\<open>verifyToken\<close> and \<^verbatim>\<open>isValid\<close> would return.
\<close>

lemma cancel_rest_enum_states:
  "cancel_rest s now a req = (r, s') \<Longrightarrow> enum_states s \<Longrightarrow> enum_states s'"
  by (rule cancel_rest_preserves[of enum_states])
     (auto simp: save_enum_states, auto simp: enum_states_def list_all_iff)

lemma book_rest_enum_states:
  "book_rest s now a req = (r, s') \<Longrightarrow> enum_states s \<Longrightarrow> enum_states s'"
  by (rule book_rest_preserves[of enum_states]) (auto simp: save_enum_states)

lemma list_rest_enum_states:
  "list_rest s now a req = (r, s') \<Longrightarrow> enum_states s \<Longrightarrow> enum_states s'"
  by (rule list_rest_preserves[of enum_states]) (auto simp: save_enum_states)

lemma feedback_rest_enum_states:
  "feedback_rest s now isValid req = (r, s') \<Longrightarrow> enum_states s \<Longrightarrow> enum_states s'"
  by (rule feedback_rest_preserves[of enum_states])
     (auto simp: save_enum_states save_feedback_enum_states)

lemma feedback_rest_feedback_keys:
  "feedback_rest s now isValid req = (r, s') \<Longrightarrow>
   distinct (map feedback_key (feedbacks s)) \<Longrightarrow>
   distinct (map feedback_key (feedbacks s'))"
  by (rule feedback_rest_preserves[of "\<lambda>s. distinct (map feedback_key (feedbacks s))"])
     (auto simp: save_frame(2) save_feedback_keys)

lemma cancel_rest_unique_keys:
  "cancel_rest s now a req = (r, s') \<Longrightarrow> unique_keys s \<Longrightarrow> unique_keys s'"
proof (rule cancel_rest_preserves[of unique_keys])
  show "unique_keys (s\<lparr>workouts := filter (\<lambda>d. wid d \<noteq> i) (workouts s)\<rparr>)"
    if "unique_keys s" for s i
    using that
    by (auto simp: unique_keys_def list_all_iff distinct_map_filter)
qed (auto simp: save_old_unique_keys save_new_unique_keys)

lemma book_rest_unique_keys:
  "book_rest s now a req = (r, s') \<Longrightarrow> unique_keys s \<Longrightarrow> unique_keys s'"
  by (rule book_rest_preserves[of unique_keys])
     (auto simp: save_old_unique_keys save_new_unique_keys)

subsection \<open>The operations as the modules stand\<close>

text \<open>
  With \<^verbatim>\<open>verifyToken\<close> and \<^verbatim>\<open>mongoose\<close> unbound, the four operations that write
  answer from their \<^verbatim>\<open>catch\<close> blocks and leave the store as it is.
\<close>

lemma cancelWorkout_throws:
  "c_httpMethod req \<noteq> ''OPTIONS'' \<Longrightarrow>
   cancelWorkout s now req = (Response 400 (Message ''Error cancelling workout''), s)"
  by (simp add: cancelWorkout_def cancel_body_def verifyToken_def)

lemma bookNewWorkout_throws:
  "b_httpMethod req \<noteq> ''OPTIONS'' \<Longrightarrow>
   bookNewWorkout s now req = (Response 500 (Error ''Internal server error.''), s)"
  by (simp add: bookNewWorkout_def book_body_def book_catch_def verifyToken_def)

lemma getUserWorkouts_throws:
  "l_httpMethod req \<noteq> ''OPTIONS'' \<Longrightarrow>
   getUserWorkouts s now req = (Response 500 (Message ''Error fetching workouts''), s)"
  by (simp add: getUserWorkouts_def list_body_def verifyToken_def)

lemma giveFeedback_throws:
  "giveFeedback s now req = (Response 500 (Message ''Internal Server Error.''), s)"
  by (simp add: giveFeedback_def feedback_body_def mongoose_def)

lemma step_unchanged: "step s op = s"
  by (cases op)
     (auto simp: bookNewWorkout_def cancelWorkout_def getUserWorkouts_def giveFeedback_def
        book_body_def cancel_body_def list_body_def feedback_body_def verifyToken_def
        mongoose_def)

lemma run_unchanged: "run s ops = s"
  unfolding run_def by (induction ops) (simp_all add: step_unchanged)

subsection \<open>The uniqueness constraint and cancelled workouts\<close>

text \<open>
  Claim C1. The claim reads the storage constraint as one over the workouts that are not
  cancelled, so that a cancelled workout and a live one may share coach and instant.
  The index of the schema covers every document (\<open>reachable_unique_keys\<close> above is the
  invariant it enforces): next to the cancelled workout of the client's cancellation, the
  \<^verbatim>\<open>AVAILABLE\<close> workout that \<^verbatim>\<open>cancelWorkout\<close> builds for the same coach and instant
  is refused by \<^verbatim>\<open>save\<close> with the duplicate-key error 11000.
\<close>

theorem canceled_workout_blocks_sibling:
  "save (store_with [booked\<lparr>state := ''CANCELED''\<rparr>]) 1750026540000 True
     (new_Workout (store_with [booked\<lparr>state := ''CANCELED''\<rparr>]) (name booked)
        (activity booked) (description booked) (dateTime booked) (coachId booked) None
        ''AVAILABLE'')
   = Inl (MongoServerError 11000)"
  by code_simp

text \<open>
  Behind the ReferenceError the cancellation of a client fails as well. Were
  \<^verbatim>\<open>verifyToken\<close> bound and the caller the workout's client, the statements after it
  would save the workout as \<^verbatim>\<open>CANCELED\<close> and then throw at the insertion of the
  sibling, whatever the store: no workout is added.
\<close>

lemma findById_member: "findById ws i = Some w \<Longrightarrow> w \<in> set ws \<and> wid w = i"
  by (induction ws) (auto split: if_splits)

lemma replace_doc_member:
  "d \<in> set ws \<Longrightarrow> wid d = wid w \<Longrightarrow> w \<in> set (replace_doc w ws)"
  by (induction ws) auto

lemma length_replace_doc: "length (replace_doc w ws) = length ws"
  by (induction ws) auto

lemma client_cancel_rest_never_succeeds:
  assumes "c_workoutId req = Oid i" and "findById (workouts s) i = Some w"
    and "clientId w = Some (user_id usr)" and "state w = ''SCHEDULED''"
    and "12 * 60 * 60 * 1000 \<le> dateTime w - now"
  shows "\<exists>e s'. cancel_rest s now (Inr usr) req = (Inl e, s')
           \<and> length (workouts s') = length (workouts s)"
proof (cases "save s now False (w\<lparr>state := ''CANCELED''\<rparr>)")
  case (Inl e)
  with assms show ?thesis
    by (simp add: cancel_rest_def Let_def)
next
  case (Inr s1)
  let ?c = "w\<lparr>state := ''CANCELED''\<rparr>"
  from Inr have ws1: "workouts s1 = replace_doc ?c (workouts s)"
    by (auto simp: save_def split: if_splits)
  from assms(2) have "w \<in> set (workouts s)" and "wid w = i"
    using findById_member by auto
  then have "?c \<in> set (workouts s1)"
    using ws1 replace_doc_member[of w "workouts s" ?c] by simp
  then have "\<exists>d \<in> set (workouts s1). index_key d =
      index_key (new_Workout s1 (name w) (activity w) (description w) (dateTime w)
                   (coachId w) None ''AVAILABLE'')"
    by (auto simp: index_key_def new_Workout_def intro!: bexI[of _ ?c])
  then have "\<exists>e. save s1 now True
      (new_Workout s1 (name w) (activity w) (description w) (dateTime w) (coachId w) None
         ''AVAILABLE'') = Inl e"
    by (auto simp: save_def)
  with assms Inr ws1 show ?thesis
    by (auto simp: cancel_rest_def Let_def length_replace_doc)
qed

text \<open>
  Claim C2. The client cancels the scheduled workout 12 hours and one minute before its
  start, and in a second run a full day before it. The first statement of the
  \<^verbatim>\<open>try\<close> block throws the ReferenceError, the \<^verbatim>\<open>catch\<close> block answers 400 with
  \<^verbatim>\<open>Error cancelling workout\<close>, and the store is the one before the request: the
  workout is still \<^verbatim>\<open>SCHEDULED\<close> and no \<^verbatim>\<open>AVAILABLE\<close> workout exists.
\<close>

theorem client_cancel_answered_error:
  "dateTime booked - 1750026540000 = 12 * 60 * 60 * 1000 + 60 * 1000 \<and>
   cancelWorkout (store_with [booked]) 1750026540000 (cancel_0 bo) =
     (Response 400 (Message ''Error cancelling workout''), store_with [booked]) \<and>
   dateTime booked - 1749983400000 = 24 * 60 * 60 * 1000 \<and>
   cancelWorkout (store_with [booked]) 1749983400000 (cancel_0 bo) =
     (Response 400 (Message ''Error cancelling workout''), store_with [booked]) \<and>
   state booked = ''SCHEDULED''"
  by code_simp

subsection \<open>The feedback states and the schema\<close>

text \<open>
  Claim C10. Neither feedback-waiting string is a value of the \<^verbatim>\<open>state\<close> enum, which
  holds the two joined by a comma as one string; \<^verbatim>\<open>save\<close> of a workout in either state
  throws a ValidationError; and in the store after any run of bookings, cancellations,
  listings and feedback from the empty collection, or from any collection whose states
  the enum lists, no workout is in either state. The statements behind the unbound
  identifiers keep the invariant too (the lemmas on \<open>enum_states\<close> above).
\<close>

theorem feedback_waiting_never_persisted:
  "''WAITING FOR FEEDBACK FROM CLIENT'' \<notin> set state_enum \<and>
   ''WAITING FOR FEEDBACK FROM COACH'' \<notin> set state_enum \<and>
   (state w = ''WAITING FOR FEEDBACK FROM CLIENT'' \<or> state w = ''WAITING FOR FEEDBACK FROM COACH''
      \<longrightarrow> save s now isNew w = Inl ValidationError) \<and>
   (\<forall>d \<in> set (workouts (run (initial us) ops)).
      state d \<noteq> ''WAITING FOR FEEDBACK FROM CLIENT'' \<and>
      state d \<noteq> ''WAITING FOR FEEDBACK FROM COACH'') \<and>
   (enum_states s0 \<longrightarrow>
      (\<forall>d \<in> set (workouts (run s0 ops)).
         state d \<noteq> ''WAITING FOR FEEDBACK FROM CLIENT'' \<and>
         state d \<noteq> ''WAITING FOR FEEDBACK FROM COACH''))"
proof -
  have kept: "\<forall>d \<in> set (workouts (run s1 ops)).
        state d \<noteq> ''WAITING FOR FEEDBACK FROM CLIENT'' \<and>
        state d \<noteq> ''WAITING FOR FEEDBACK FROM COACH''" if "enum_states s1" for s1
  proof -
    from that have "enum_states (run s1 ops)"
      by (rule run_enum_states)
    then have "\<forall>d \<in> set (workouts (run s1 ops)). state d \<in> set state_enum"
      by (simp add: enum_states_def list_all_iff)
    then show ?thesis
      using waiting_not_in_enum by auto
  qed
  have "enum_states (initial us)"
    by (simp add: enum_states_def initial_def)
  from kept[OF this] have fromEmpty: "\<forall>d \<in> set (workouts (run (initial us) ops)).
        state d \<noteq> ''WAITING FOR FEEDBACK FROM CLIENT'' \<and>
        state d \<noteq> ''WAITING FOR FEEDBACK FROM COACH''" .
  have refused: "state w = ''WAITING FOR FEEDBACK FROM CLIENT'' \<or>
      state w = ''WAITING FOR FEEDBACK FROM COACH'' \<longrightarrow> save s now isNew w = Inl ValidationError"
    using waiting_not_in_enum by (auto simp: save_def validate_def)
  from kept[of s0] fromEmpty refused waiting_not_in_enum show ?thesis
    by blast
qed

text \<open>
  The run: from the store of the booked workout, a listing after the session's end and
  the client's feedback. Both are answered with errors and the workout is still scheduled.
\<close>

theorem feedback_waiting_never_persisted_witness:
  "save (store_with [booked]) 1750053600000 False waiting_for_client = Inl ValidationError \<and>
   enum_states (store_with [booked]) \<and>
   workouts (run (store_with [booked]) lifecycle) = [booked] \<and>
   workouts (run (initial [coach_asha, client_bo, client_cy]) lifecycle) = [] \<and>
   state booked \<noteq> ''WAITING FOR FEEDBACK FROM CLIENT'' \<and>
   state booked \<noteq> ''WAITING FOR FEEDBACK FROM COACH''"
proof -
  have ran: "workouts (run (store_with [booked]) lifecycle) = [booked]"
    "workouts (run (initial [coach_asha, client_bo, client_cy]) lifecycle) = []"
    by code_simp+
  have valid: "enum_states (store_with [booked])"
    by code_simp
  have st: "state waiting_for_client = ''WAITING FOR FEEDBACK FROM CLIENT''"
    by (simp add: waiting_for_client_def)
  from feedback_waiting_never_persisted
         [of waiting_for_client "store_with [booked]" 1750053600000 False
            "[coach_asha, client_bo, client_cy]" lifecycle "store_with [booked]"]
  show ?thesis
    using ran valid st by simp
qed

text \<open>
  Behind the ReferenceError of \<^verbatim>\<open>giveFeedback\<close>. Were \<^verbatim>\<open>mongoose\<close> bound, feedback on
  a workout in a state other than the one the role waits for would be answered 400 with
  the store unchanged; the coach's feedback on a workout that waits for it would finish
  the workout; and the client's feedback on a workout that waits for it would be stored
  while the workout, set to \<^verbatim>\<open>WAITING FOR FEEDBACK FROM COACH\<close>, fails the validation of
  \<^verbatim>\<open>save\<close>. The last two start from states that no \<^verbatim>\<open>save\<close> stores.
\<close>

lemma feedback_in_other_state_rejected:
  assumes "f_workoutId req = Oid i" and "isValid (Oid i)" and "truthy (f_comment req)"
    and "f_rating req = Some r" and "0 < r" and "r \<le> 5"
    and "findById (workouts s) i = Some w"
    and "(user_role (f_user req) = ''CLIENT'' \<and> state w \<noteq> ''WAITING FOR FEEDBACK FROM CLIENT'')
       \<or> (user_role (f_user req) = ''COACH'' \<and> state w \<noteq> ''WAITING FOR FEEDBACK FROM COACH'')"
  shows "\<exists>m. feedback_rest s now isValid req = (Inr (Response 400 (Message m)), s)"
  using assms by (auto simp: feedback_rest_def Let_def)

lemma coach_feedback_rest_finishes:
  "feedback_rest (store_with [waiting_for_coach]) 1750080000000 is_oid (feedback_0 asha) =
     (Inr (Response 201 (Message ''Feedback submitted successfully.'')),
      (store_with [booked\<lparr>state := ''FINISHED''\<rparr>])
        \<lparr>feedbacks := [feedback_of_bo\<lparr>authorRole := Some ''COACH''\<rparr>], next_oid := 2\<rparr>)"
  by code_simp

lemma client_feedback_rest_does_not_advance:
  "feedback_rest (store_with [waiting_for_client]) 1750080000000 is_oid (feedback_0 bo) =
     (Inl ValidationError, after_client_feedback)"
  by code_simp

text \<open>
  Claim C3. The client, and then the coach, give feedback on the scheduled workout, a
  state for which the claim has the call answered InvalidState. The second statement of
  the \<^verbatim>\<open>try\<close> block throws the ReferenceError, the \<^verbatim>\<open>catch\<close> block answers 500, and
  so it does for every call, whatever the state of the workout.
\<close>

theorem feedback_on_scheduled_workout_fails:
  "state booked = ''SCHEDULED'' \<and>
   giveFeedback (store_with [booked]) 1750080000000 (feedback_0 bo) =
     (Response 500 (Message ''Internal Server Error.''), store_with [booked]) \<and>
   giveFeedback (store_with [booked]) 1750080000000 (feedback_0 asha) =
     (Response 500 (Message ''Internal Server Error.''), store_with [booked])"
  by code_simp

text \<open>
  The loop of the listing by itself: it comes to an end without an exception only when no
  scheduled workout has ended, and then it has written nothing; for the booked workout
  after its end the \<^verbatim>\<open>save\<close> in the loop throws.
\<close>

lemma promote_succeeds_only_without_ended:
  "promote s now ist ws = (Inr out, s') \<Longrightarrow>
     out = ws \<and> s' = s \<and>
     list_all (\<lambda>w. \<not> (dateTime w + duration w * 60000 \<le> ist \<and> state w = ''SCHEDULED'')) ws"
proof (induction ws arbitrary: out s')
  case Nil
  then show ?case by simp
next
  case (Cons w ws)
  have fails: "save s now False (w\<lparr>state := ''WAITING FOR FEEDBACK FROM CLIENT''\<rparr>)
      = Inl ValidationError"
    by (simp add: save_def validate_def state_enum_def)
  from Cons.prems fails
  have keep: "\<not> (dateTime w + duration w * 60000 \<le> ist \<and> state w = ''SCHEDULED'')"
    by (auto simp: Let_def)
  with Cons.prems obtain rest where rest: "promote s now ist ws = (Inr rest, s')"
    and out: "out = w # rest"
    by (auto simp: Let_def split: prod.splits sum.splits)
  from Cons.IH[OF rest] keep out show ?case
    by simp
qed

lemma promote_throws_on_ended_workout:
  "promote (store_with [booked]) 1750080000000 (1750080000000 + istOffsetMs) [booked] =
     (Inl ValidationError, store_with [booked])"
  by code_simp

text \<open>
  Claim C4. The client lists the workouts at the instant the session ends on the moved
  clock (10:30 plus 60 minutes, less the offset of 5 hours 30 minutes), and in a second
  run when the plain clock is past the end as well. The answer is 500 and the stored
  workout is still \<^verbatim>\<open>SCHEDULED\<close>: the first statement of the \<^verbatim>\<open>try\<close> block throws,
  and behind it the loop sets the workout to \<^verbatim>\<open>WAITING FOR FEEDBACK FROM CLIENT\<close> and
  \<^verbatim>\<open>save\<close> throws.
\<close>

theorem list_fails_on_ended_workout:
  "dateTime booked + duration booked * 60000 = 1750053600000 + istOffsetMs \<and>
   getUserWorkouts (store_with [booked]) 1750053600000 (list_of bo) =
     (Response 500 (Message ''Error fetching workouts''), store_with [booked]) \<and>
   dateTime booked + duration booked * 60000 < 1750080000000 \<and>
   getUserWorkouts (store_with [booked]) 1750080000000 (list_of bo) =
     (Response 500 (Message ''Error fetching workouts''), store_with [booked])"
  by code_simp

subsection \<open>Availability\<close>

text \<open>
  What \<^verbatim>\<open>getAvailableSlots\<close> answers for a coach that exists and a date that passes
  its checks: the coach's slots in their order, less the labels of the coach's workouts of
  that day whose state is in the list of the query.
\<close>

lemma available_slots_resolved:
  assumes "s_coachId req = Oid cid"
    and "find (\<lambda>u. uid u = cid \<and> role u = ''COACH'') (users s) = Some coach"
    and "split CHR ''-'' (s_date req) = [ys, ms, ds]"
    and "digits 4 ys" and "digits 2 ms" and "digits 2 ds"
    and "Number ys = Some y" and "Number ms = Some m" and "Number ds = Some d"
    and "1 \<le> m" and "m \<le> 12" and "1 \<le> d" and "d \<le> 31"
    and "(now div 86400000) * 86400000 \<le> midnight_UTC (int y) (int m) (int d)"
  shows "getAvailableSlots sp s now req =
     Response 200 (Slots
       (filter (\<lambda>slot. slot \<notin> slot_label sp `
            {w \<in> set (workouts s). coachId w = cid
               \<and> midnight_UTC (int y) (int m) (int d) \<le> dateTime w
               \<and> dateTime w \<le> midnight_UTC (int y) (int m) (int d) + 86399999
               \<and> state w \<in> set occupying_states})
          (availableTimeSlots coach)))"
proof -
  have "s_date req \<noteq> []" using assms(3) by auto
  with assms show ?thesis
    by (simp add: getAvailableSlots_def slots_body_def Let_def)
qed

lemma occupying_states_on_enum:
  assumes "state w \<in> set state_enum"
  shows "state w \<in> set occupying_states \<longleftrightarrow> state w \<in> set live_states"
  using assms by (auto simp: state_enum_def occupying_states_def live_states_def)

text \<open>
  Claim C5. The store holds workouts whose states the schema's enum lists, as every
  \<^verbatim>\<open>save\<close> leaves it; the coach exists; the date has the form \<^verbatim>\<open>YYYY-MM-DD\<close>, is a
  date of the calendar and is not before the current day, on the plain clock that the
  code reads or on the clock moved by 5 hours 30 minutes. Then the answer is the coach's
  slots in their order, less those equal to the label of a workout of the coach on that
  day whose state is one of \<^verbatim>\<open>SCHEDULED\<close>, \<^verbatim>\<open>IN_PROGRESS\<close> and the two feedback
  states; the label is the formatted start, \<^verbatim>\<open> - \<close> and the formatted end, the start
  plus the duration. Workouts in other states take no slot. The query spells the
  client's feedback state \<^verbatim>\<open>WAITING FOR FEEDBACK FROM CIENT\<close>, which makes no difference
  on such a store.
\<close>

theorem available_slots_of_valid_store:
  assumes "enum_states s"
    and "s_coachId req = Oid cid"
    and "find (\<lambda>u. uid u = cid \<and> role u = ''COACH'') (users s) = Some coach"
    and "split CHR ''-'' (s_date req) = [ys, ms, ds]"
    and "digits 4 ys" and "digits 2 ms" and "digits 2 ds"
    and "Number ys = Some y" and "Number ms = Some m" and "Number ds = Some d"
    and "1 \<le> m" and "m \<le> 12" and "1 \<le> d" and "int d \<le> days_in_month (int y) (int m)"
    and "(now div 86400000) * 86400000 \<le> midnight_UTC (int y) (int m) (int d)
       \<or> ((now + istOffsetMs) div 86400000) * 86400000 \<le> midnight_UTC (int y) (int m) (int d)"
  shows "getAvailableSlots sp s now req =
     Response 200 (Slots
       (filter (\<lambda>slot. slot \<notin> slot_label sp `
            {w \<in> set (workouts s). coachId w = cid
               \<and> midnight_UTC (int y) (int m) (int d) \<le> dateTime w
               \<and> dateTime w \<le> midnight_UTC (int y) (int m) (int d) + 86399999
               \<and> state w \<in> set live_states})
          (availableTimeSlots coach)))"
proof -
  have "int d \<le> 31"
    using assms(14) by (auto simp: days_in_month_def split: if_splits)
  then have d31: "d \<le> 31" by simp
  have "now div 86400000 \<le> (now + istOffsetMs) div 86400000"
    by (rule zdiv_mono1) (simp_all add: istOffsetMs_def)
  with assms(15)
  have today: "(now div 86400000) * 86400000 \<le> midnight_UTC (int y) (int m) (int d)"
    by auto
  have same: "{w \<in> set (workouts s). coachId w = cid
               \<and> midnight_UTC (int y) (int m) (int d) \<le> dateTime w
               \<and> dateTime w \<le> midnight_UTC (int y) (int m) (int d) + 86399999
               \<and> state w \<in> set occupying_states}
            = {w \<in> set (workouts s). coachId w = cid
               \<and> midnight_UTC (int y) (int m) (int d) \<le> dateTime w
               \<and> dateTime w \<le> midnight_UTC (int y) (int m) (int d) + 86399999
               \<and> state w \<in> set live_states}"
    using assms(1) occupying_states_on_enum
    by (auto simp: enum_states_def list_all_iff)
  show ?thesis
    using available_slots_resolved[OF assms(2-13) d31 today, of sp] same by simp
qed

text \<open>
  The run: the coach has the booked workout from 10:30 to 11:30 and a cancelled one from
  3:00 to 4:00 on the day. With a space before the day period, the label of the booked
  workout leaves the answer and that of the cancelled one stays. With the narrow no-break
  space of the newer locale data the label of the booked workout is equal to no slot of
  the coach, and every slot stays.
\<close>

theorem available_slots_of_valid_store_witness:
  "slot_label '' '' booked = ''10:30 AM - 11:30 AM'' \<and>
   slot_label '' '' canceled_at_3pm = ''3:00 PM - 4:00 PM'' \<and>
   filter (\<lambda>slot. slot \<notin> slot_label '' '' `
        {w \<in> set (workouts (store_with [booked, canceled_at_3pm])). coachId w = 1
           \<and> midnight_UTC (int 2025) (int 6) (int 16) \<le> dateTime w
           \<and> dateTime w \<le> midnight_UTC (int 2025) (int 6) (int 16) + 86399999
           \<and> state w \<in> set live_states})
      (availableTimeSlots coach_asha) = [''8:00 PM - 9:00 PM'', ''3:00 PM - 4:00 PM''] \<and>
   getAvailableSlots '' '' (store_with [booked, canceled_at_3pm]) 1750000000000 slots_of_asha =
     Response 200 (Slots [''8:00 PM - 9:00 PM'', ''3:00 PM - 4:00 PM'']) \<and>
   getAvailableSlots narrow_space (store_with [booked, canceled_at_3pm]) 1750000000000
       slots_of_asha =
     Response 200
       (Slots [''8:00 PM - 9:00 PM'', ''10:30 AM - 11:30 AM'', ''3:00 PM - 4:00 PM''])"
proof -
  let ?s = "store_with [booked, canceled_at_3pm]"
  have valid: "enum_states ?s"
    by code_simp
  have rid: "s_coachId slots_of_asha = Oid 1"
    by (simp add: slots_of_asha_def)
  have coach: "find (\<lambda>u. uid u = 1 \<and> role u = ''COACH'') (users ?s) = Some coach_asha"
    by code_simp
  have date: "split CHR ''-'' (s_date slots_of_asha) = [''2025'', ''06'', ''16'']"
    "digits 4 ''2025''" "digits 2 ''06''" "digits 2 ''16''"
    "Number ''2025'' = Some 2025" "Number ''06'' = Some 6" "Number ''16'' = Some 16"
    by code_simp+
  have ranges: "(1::nat) \<le> 6" "(6::nat) \<le> 12" "(1::nat) \<le> 16"
    by simp_all
  have calendar: "int 16 \<le> days_in_month (int 2025) (int 6)"
    by code_simp
  have today: "(1750000000000 div 86400000) * 86400000 \<le> midnight_UTC (int 2025) (int 6) (int 16)
     \<or> ((1750000000000 + istOffsetMs) div 86400000) * 86400000
         \<le> midnight_UTC (int 2025) (int 6) (int 16)"
    by code_simp
  note resolved = available_slots_of_valid_store
      [OF valid rid coach date ranges calendar today, of "'' ''"]
  have labels: "slot_label '' '' booked = ''10:30 AM - 11:30 AM''"
    "slot_label '' '' canceled_at_3pm = ''3:00 PM - 4:00 PM''"
    by code_simp+
  have plain: "getAvailableSlots '' '' ?s 1750000000000 slots_of_asha =
     Response 200 (Slots [''8:00 PM - 9:00 PM'', ''3:00 PM - 4:00 PM''])"
    by code_simp
  have narrow: "getAvailableSlots narrow_space ?s 1750000000000 slots_of_asha =
     Response 200
       (Slots [''8:00 PM - 9:00 PM'', ''10:30 AM - 11:30 AM'', ''3:00 PM - 4:00 PM''])"
    by code_simp
  from resolved plain
  have "Response 200 (Slots (filter (\<lambda>slot. slot \<notin> slot_label '' '' `
        {w \<in> set (workouts ?s). coachId w = 1
           \<and> midnight_UTC (int 2025) (int 6) (int 16) \<le> dateTime w
           \<and> dateTime w \<le> midnight_UTC (int 2025) (int 6) (int 16) + 86399999
           \<and> state w \<in> set live_states})
      (availableTimeSlots coach_asha)))
     = Response 200 (Slots [''8:00 PM - 9:00 PM'', ''3:00 PM - 4:00 PM''])"
    by (rule trans[OF sym])
  then have kept: "filter (\<lambda>slot. slot \<notin> slot_label '' '' `
        {w \<in> set (workouts ?s). coachId w = 1
           \<and> midnight_UTC (int 2025) (int 6) (int 16) \<le> dateTime w
           \<and> dateTime w \<le> midnight_UTC (int 2025) (int 6) (int 16) + 86399999
           \<and> state w \<in> set live_states})
      (availableTimeSlots coach_asha) = [''8:00 PM - 9:00 PM'', ''3:00 PM - 4:00 PM'']"
    by (simp only: response.inject payload.inject)
  from labels kept plain narrow show ?thesis
    by (intro conjI)
qed

subsection \<open>The cancellation cutoff\<close>

text \<open>
  Behind the ReferenceError of \<^verbatim>\<open>cancelWorkout\<close>. Were \<^verbatim>\<open>verifyToken\<close> bound and the
  caller the workout's coach or client, a cancellation less than 12 hours before the
  workout's instant would be answered 400 by a guard, with the store unchanged. The 12
  hours are counted from the clock as it is, while a booking stores the civil time of the
  session as if it were UTC, on the clock moved by 5 hours 30 minutes: 11 hours 59
  minutes before the start on that clock, the coach's cancellation would pass the cutoff
  and delete the workout.
\<close>

lemma cancel_rest_inside_cutoff:
  assumes "c_workoutId req = Oid i" and "findById (workouts s) i = Some w"
    and "coachId w = user_id usr \<or> clientId w = Some (user_id usr)"
    and "dateTime w - now < 12 * 60 * 60 * 1000"
  shows "cancel_rest s now (Inr usr) req =
     (Inr (Response 400 (Message
        (if clientId w = Some (user_id usr) \<and> state w \<noteq> ''SCHEDULED''
         then ''Only scheduled workouts can be cancelled''
         else ''Workout can only be cancelled 12 hours in advance''))), s)"
  using assms by (auto simp: cancel_rest_def Let_def)

lemma cancel_rest_on_moved_clock:
  "dateTime booked - (1750006860000 + istOffsetMs) = 11 * 60 * 60 * 1000 + 59 * 60 * 1000 \<and>
   cancel_rest (store_with [booked]) 1750006860000 (Inr asha) (cancel_0 asha) =
     (Inr (Response 200 (Cancelled ''Workout cancelled and removed from availability'' 0)),
      store_with [])"
  by code_simp

text \<open>
  Claim C6. The client, and then the coach, cancel the scheduled workout 11 hours and 59
  minutes before its start. The store is the one before the request, as the claim has it.
  The answer is not the rejection of the cutoff,
  \<^verbatim>\<open>Workout can only be cancelled 12 hours in advance\<close>: the first statement of the
  \<^verbatim>\<open>try\<close> block throws the ReferenceError and the \<^verbatim>\<open>catch\<close> block answers
  \<^verbatim>\<open>Error cancelling workout\<close>, which the route's documentation lists as the internal
  server error, and which a cancellation a day before the start is answered too.
\<close>

theorem cancel_inside_cutoff_answered_error:
  "dateTime booked - 1750026660000 = 11 * 60 * 60 * 1000 + 59 * 60 * 1000 \<and>
   cancelWorkout (store_with [booked]) 1750026660000 (cancel_0 bo) =
     (Response 400 (Message ''Error cancelling workout''), store_with [booked]) \<and>
   cancelWorkout (store_with [booked]) 1750026660000 (cancel_0 asha) =
     (Response 400 (Message ''Error cancelling workout''), store_with [booked]) \<and>
   fst (cancelWorkout (store_with [booked]) 1750026660000 (cancel_0 bo)) \<noteq>
     Response 400 (Message ''Workout can only be cancelled 12 hours in advance'') \<and>
   dateTime booked - 1749983400000 = 24 * 60 * 60 * 1000 \<and>
   cancelWorkout (store_with [booked]) 1749983400000 (cancel_0 asha) =
     (Response 400 (Message ''Error cancelling workout''), store_with [booked])"
  by code_simp

subsection \<open>Duplicate keys at the write of a booking\<close>

text \<open>
  Behind the ReferenceError of \<^verbatim>\<open>bookNewWorkout\<close>. Were \<^verbatim>\<open>verifyToken\<close> bound, the
  server would refuse the insert of a booking when the instant is held by a workout of
  the coach that the three queries skip, a cancelled or finished one; the exception would
  carry the code 11000 and the \<^verbatim>\<open>catch\<close> block would answer 409.
\<close>

lemma book_reserve_duplicate_key:
  assumes "find (\<lambda>w. clientId w = Some cl \<and> dateTime w = t \<and>
                      state w \<in> set [''SCHEDULED'', ''IN_PROGRESS'']) (workouts s) = None"
    and "find (\<lambda>w. coachId w = cid \<and> dateTime w = t \<and>
                    state w \<in> set [''SCHEDULED'', ''IN_PROGRESS'']) (workouts s) = None"
    and "find (\<lambda>w. coachId w = cid \<and> dateTime w = t \<and> state w = ''AVAILABLE'')
           (workouts s) = None"
    and "d \<in> set (workouts s)" and "coachId d = cid" and "dateTime d = t"
    and "preferableActivity coach = Some a" and "a \<in> set activity_enum" and "now < t"
  shows "book_reserve s now cl coach cid t = (Inl (MongoServerError 11000), s)"
proof -
  let ?new = "new_Workout s (Some (a @ '' class'')) (Some a)
      (Some (a @ '' class with coach '' @ firstName coach @ '' '' @ lastName coach))
      t cid (Some cl) ''SCHEDULED''"
  have "validate True now ?new"
    using assms(8,9)
    by (auto simp: validate_def new_Workout_def required_string_def enum_string_def
        state_enum_def activity_enum_def)
  moreover have "\<exists>x \<in> set (workouts s). index_key x = index_key ?new"
    using assms(4-6) by (auto simp: index_key_def new_Workout_def)
  ultimately have "save s now True ?new = Inl (MongoServerError 11000)"
    by (simp add: save_def)
  with assms(1-3,7) show ?thesis
    by (simp add: book_reserve_def Let_def)
qed

lemma book_rest_duplicate_key:
  "book_rest (store_with [booked\<lparr>state := ''CANCELED''\<rparr>]) 1750000000000 (Inr cy)
      (book_1030 cy) =
     (Inl (MongoServerError 11000), store_with [booked\<lparr>state := ''CANCELED''\<rparr>])"
  by code_simp


subsection \<open>The lead time of a booking\<close>

text \<open>
  Behind the ReferenceError of \<^verbatim>\<open>bookNewWorkout\<close>. The request carries a date
  \<^verbatim>\<open>YYYY-MM-DD\<close> that passes the format and calendar checks and a time \<^verbatim>\<open>HH:MM\<close>;
  \<open>requested\<close> is the instant \<^verbatim>\<open>Date.UTC\<close> builds from them. Were \<^verbatim>\<open>verifyToken\<close>
  bound and the checks of caller, coach and slot passed, the request would be answered 400
  when \<open>requested\<close> is earlier than the clock moved by the offset of 5 hours 30 minutes
  and the 30 minutes of buffer, and from exactly 30 minutes on it would go on to the
  conflict queries and the reservation.
\<close>

lemma split_chars:
  "x \<in> set s \<Longrightarrow> x \<noteq> c \<Longrightarrow> \<exists>p \<in> set (split c s). x \<in> set p"
  by (induction s) (fastforce split: list.splits)+

lemma digits_no_sep:
  assumes "digits n s" and "digit_of c = None"
  shows "c \<notin> set s"
  using assms by (auto simp: digits_def list_all_iff)

lemma book_dated_lead_time:
  assumes time_syntax: "split CHR '':'' ts = [hs, mis]" "digits 2 hs" "digits 2 mis"
    and date_syntax: "split CHR ''-'' date = [ys, ms, ds]" "digits 4 ys" "digits 2 ms" "digits 2 ds"
    and numbers: "Number ys = Some y" "Number ms = Some m" "Number ds = Some d"
    and ranges: "1 \<le> m" "m \<le> 12" "1 \<le> d" "d \<le> 31"
    and calendar: "Date_local (int y) (int m) (int d) = (int y, int m, int d)"
    and requested: "Date_UTC (int y) (int m) (int d) (Number hs) (Number mis) = Some requested"
  shows "book_dated s now cl c ci date ts =
      (if requested < now + istOffsetMs + 30 * 60000 then
         (Inr (Response 400
            (Error ''Workouts must be scheduled at least 30 minutes in advance from your local time.'')), s)
       else book_reserve s now cl c ci requested)"
proof -
  have nodash: "CHR ''-'' \<notin> set ts"
    using split_chars[of "CHR ''-''" ts "CHR '':''"] time_syntax
      digits_no_sep[of 2 hs "CHR ''-''"] digits_no_sep[of 2 mis "CHR ''-''"]
    by (auto simp: digit_of_def)
  show ?thesis
    using nodash time_syntax date_syntax numbers ranges calendar requested
    by (simp add: book_dated_def Let_def)
qed

lemma book_rest_lead_time:
  "book_rest (initial [coach_asha, client_bo, client_cy]) 1750048200001 (Inr bo)
      (book_1030 bo) =
     (Inr (Response 400
        (Error ''Workouts must be scheduled at least 30 minutes in advance from your local time.'')),
      initial [coach_asha, client_bo, client_cy]) \<and>
   book_rest (initial [coach_asha, client_bo, client_cy]) 1750048200000 (Inr bo)
      (book_1030 bo) =
     (Inr (Response 201 (Booked booked)), store_with [booked])"
  by code_simp

text \<open>
  Claim C8. The client books the session of 10:30 when the clock, moved by the offset, is
  exactly 30 minutes before it, and in a second run one millisecond later. Both requests
  are answered 500, the first statement of the \<^verbatim>\<open>try\<close> block throwing the
  ReferenceError: the request at exactly 30 minutes is not accepted, and the one inside
  the buffer is answered with the internal error, not with the 400 of the lead-time
  check. Nothing is stored.
\<close>

theorem booking_at_boundary_answered_internal:
  "1750048200000 + istOffsetMs + 30 * 60000 = dateTime booked \<and>
   bookNewWorkout (initial [coach_asha, client_bo, client_cy]) 1750048200000 (book_1030 bo) =
     (Response 500 (Error ''Internal server error.''),
      initial [coach_asha, client_bo, client_cy]) \<and>
   dateTime booked < 1750048200001 + istOffsetMs + 30 * 60000 \<and>
   bookNewWorkout (initial [coach_asha, client_bo, client_cy]) 1750048200001 (book_1030 bo) =
     (Response 500 (Error ''Internal server error.''),
      initial [coach_asha, client_bo, client_cy])"
  by code_simp

subsection \<open>Duplicate feedback\<close>

text \<open>
  Behind the ReferenceError of \<^verbatim>\<open>giveFeedback\<close>. Were \<^verbatim>\<open>mongoose\<close> bound, the state
  guard would come before the duplicate guard: on the finished workout with the client's
  feedback a second submission of the client would be answered 400 by the state guard,
  and the answer of the duplicate guard would need a workout in a feedback state, which
  no \<^verbatim>\<open>save\<close> stores. The pairs of workout and author role of the stored feedback
  stay distinct in every run, and through these statements as well
  (\<open>run_feedback_keys\<close> and \<open>feedback_rest_feedback_keys\<close> above).
\<close>

lemma feedback_rest_on_finished:
  "feedback_rest finished_with_feedback 1750083600000 is_oid (feedback_0 bo) =
     (Inr (Response 400
        (Message ''Feedback can only be submitted when the workout is in WAITING FOR FEEDBACK FROM CLIENT state.'')),
      finished_with_feedback)"
  by code_simp

lemma feedback_rest_duplicate:
  "feedback_rest after_client_feedback 1750083600000 is_oid (feedback_0 bo) =
     (Inr (Response 400 (Message ''You have already provided feedback for this workout.'')),
      after_client_feedback)"
  by code_simp


end
